theory Spec2Isabelle
  imports Main "HOL-Library.Word"
begin

section \<open>Values, exceptions and effects of app.py\<close>

text \<open>
  app.py is glue around external collaborators: the file system, the docx parser, two
  LLM chains, pandas, the Markdown and PDF converters and the Streamlit runtime.
  The embedding keeps the control flow of every function of app.py and takes the
  collaborators as fields of an environment record \<open>env\<close>, so every theorem holds for
  all behaviours of the collaborators.

  Failure model. A collaborator is given an exceptional outcome wherever its call can
  raise into app.py: the file operations (\<open>os.makedirs\<close>, \<open>open\<close>, \<open>write\<close>,
  \<open>os.remove\<close>), the docx loader, the construction of the LLM client without an API key,
  both chain invocations, the DataFrame constructor, the table and CSV writers and the
  Markdown and PDF converters. \<open>PromptTemplate.from_template\<close> on the fixed template of
  a function and the composition \<open>prompt | llm | parser\<close> take nothing from the input
  and are part of the chain; the \<open>logging\<close> module does not pass the errors of its
  handlers on; the Streamlit display calls are taken to return.

  Strings are lists of 8-bit characters: the code points below 256.
\<close>

type_synonym path = string
type_synonym bytes = "8 word list"

text \<open>
  Python exceptions. \<open>Exception m\<close> is an instance of \<open>Exception\<close> whose \<open>str\<close> is \<open>m\<close>;
  \<open>RerunException\<close> is what \<open>st.rerun()\<close> raises to stop the script run; it is not an
  \<open>Exception\<close>, so \<open>except Exception\<close> does not catch it.
\<close>

datatype exn = Exception string | RerunException

fun exn_str :: "exn \<Rightarrow> string" where
  "exn_str (Exception m) = m"
| "exn_str RerunException = []"

text \<open>
  Python values that flow through the session state: what \<open>json.loads\<close> can return
  (\<open>None\<close> is \<open>JNull\<close>, a \<open>str\<close> is \<open>JStr\<close>, a \<open>dict\<close> is \<open>JObj\<close> with its items in
  insertion order). Numbers are restricted to integers.
\<close>

datatype json =
    JNull
  | JBool bool
  | JNum int
  | JStr string
  | JArr "json list"
  | JObj "(string \<times> json) list"

text \<open>Python truthiness (\<open>if x:\<close>, \<open>not x\<close>).\<close>

fun truthy :: "json \<Rightarrow> bool" where
  "truthy JNull = False"
| "truthy (JBool b) = b"
| "truthy (JNum n) = (n \<noteq> 0)"
| "truthy (JStr s) = (s \<noteq> [])"
| "truthy (JArr xs) = (xs \<noteq> [])"
| "truthy (JObj kvs) = (kvs \<noteq> [])"

record uploaded_file =
  name :: string
  getbuffer :: bytes

record document =
  page_content :: string

record llm =
  model :: string
  temperature_tenths :: nat
  google_api_key :: "string option"

record dataframe =
  columns :: "string list"
  rows :: "json option list list"

text \<open>Fixed literals of app.py that no property depends on are named, not spelled out.\<close>

datatype asset = Custom_CSS | Main_Header | Footer

datatype button =
    Perform_Security_Assessment
  | Download_Table_as_CSV
  | Generate_Full_Report
  | Back_to_Assessment
  | Download_Report_Markdown
  | Download_Report_PDF

datatype level = INFO | WARNING | ERROR

datatype chain = Risk_chain | Narrative_chain

datatype payload = Text json | Binary bytes

text \<open>
  What a run does that is visible outside: log records, Streamlit display calls in the
  order they are issued, and invocations of an LLM chain (the network calls).
\<close>

datatype event =
    Log level string
  | Script_rerun
  | St_set_page_config
  | St_write string
  | St_error string
  | St_warning string
  | St_success string
  | St_subheader string
  | St_spinner string
  | St_markdown json
  | St_markdown_html asset
  | St_file_uploader
  | St_dataframe dataframe
  | St_button button
  | St_download_button button payload
  | Chain_invoke chain llm

type_synonym filesys = "path \<rightharpoonup> bytes"

record sys =
  files :: filesys
  session_state :: "string \<rightharpoonup> json"

text \<open>
  The external collaborators. A call that fails raises an \<open>Exception\<close>, given here by
  its message (\<open>Inl m\<close>).
  \<^item> \<open>getenv\<close> is \<open>os.getenv\<close>.
  \<^item> \<open>makedirs_error\<close>, \<open>open_error\<close>, \<open>write_error\<close> and \<open>remove_error\<close> say when a file
    operation fails on the file system it finds (no permission, disk full, a directory
    in the way) and with which message; \<open>write_error\<close> also says how many bytes reached
    the file before the failure.
  \<^item> \<open>credentials_error k\<close> is the error of \<open>ChatGoogleGenerativeAI(...)\<close> when it is given
    no API key (\<open>k\<close> is \<open>None\<close> or the empty string): the client then looks for default
    credentials and raises when it finds none.
  \<^item> \<open>loader_load fs p\<close> is \<open>Docx2txtLoader(p).load()\<close> run on the file system \<open>fs\<close>: it
    raises or returns documents, and leaves a file system behind.
  \<^item> \<open>risk_chain l t\<close> is \<open>(prompt | llm | JsonOutputParser()).invoke({"text": t})\<close> and
    \<open>narrative_chain l t r\<close> is
    \<open>(prompt | llm | StrOutputParser()).invoke({"text": t, "risks": str(r)})\<close>, each
    with the fixed template of its function.
  \<^item> \<open>frame_other\<close> is \<open>pd.DataFrame\<close> on a value that is not a list of dicts,
    \<open>tabulate_pipe\<close> lays out header and cells for \<open>to_markdown(index=False)\<close>, and
    \<open>to_csv\<close> is \<open>df.to_csv(index=False).encode('utf-8')\<close>.
  \<^item> \<open>markdown_markdown\<close> is \<open>markdown.markdown(_, extensions=['tables'])\<close>.
  \<^item> \<open>pisa_CreatePDF\<close> is \<open>pisa.CreatePDF\<close>: it raises, or gives the error count
    \<open>pisa_status.err\<close> and the bytes it wrote to \<open>dest\<close>.
\<close>

record env =
  getenv :: "string \<Rightarrow> string option"
  makedirs_error :: "filesys \<Rightarrow> path \<Rightarrow> string option"
  open_error :: "filesys \<Rightarrow> path \<Rightarrow> string option"
  write_error :: "filesys \<Rightarrow> path \<Rightarrow> bytes \<Rightarrow> (string \<times> nat) option"
  remove_error :: "filesys \<Rightarrow> path \<Rightarrow> string option"
  loader_load :: "filesys \<Rightarrow> path \<Rightarrow> (string + document list) \<times> filesys"
  credentials_error :: "string option \<Rightarrow> string option"
  risk_chain :: "llm \<Rightarrow> string \<Rightarrow> string + json"
  narrative_chain :: "llm \<Rightarrow> json \<Rightarrow> json \<Rightarrow> string + string"
  frame_other :: "json \<Rightarrow> string + dataframe"
  tabulate_pipe :: "string list \<Rightarrow> json option list list \<Rightarrow> string + string"
  to_csv :: "dataframe \<Rightarrow> string + string"
  markdown_markdown :: "json \<Rightarrow> string + string"
  pisa_CreatePDF :: "string \<Rightarrow> string + nat \<times> bytes"

text \<open>What the user did to trigger a script run.\<close>

record request =
  query_params :: "(string \<times> string) list"
  uploaded :: "uploaded_file option"
  clicked :: "button option"

subsection \<open>Statements with state, output and exceptions\<close>

text \<open>
  A statement maps the state to an outcome (an exception or a value), the state it
  leaves and the events it issued. State changes and events made before an exception
  stay, as mutations of \<open>st.session_state\<close> and of the disk do in Python.
\<close>

type_synonym 'a prog = "sys \<Rightarrow> (exn + 'a) \<times> sys \<times> event list"

definition return :: "'a \<Rightarrow> 'a prog" where
  "return x = (\<lambda>s. (Inr x, s, []))"

definition raise :: "exn \<Rightarrow> 'a prog" where
  "raise ex = (\<lambda>s. (Inl ex, s, []))"

definition bind :: "'a prog \<Rightarrow> ('a \<Rightarrow> 'b prog) \<Rightarrow> 'b prog" where
  "bind m f = (\<lambda>s.
     case m s of
       (Inl ex, s1, o1) \<Rightarrow> (Inl ex, s1, o1)
     | (Inr x, s1, o1) \<Rightarrow> (case f x s1 of (r, s2, o2) \<Rightarrow> (r, s2, o1 @ o2)))"

text \<open>A block of statements, run in order until one raises.\<close>

fun block :: "unit prog list \<Rightarrow> unit prog" where
  "block [] = return ()"
| "block (m # ms) = bind m (\<lambda>_. block ms)"

definition if_then :: "bool \<Rightarrow> unit prog \<Rightarrow> unit prog" where
  "if_then c m = (if c then m else return ())"

text \<open>\<open>try: m  except Exception as e: h e\<close>\<close>

definition try_except :: "'a prog \<Rightarrow> (exn \<Rightarrow> 'a prog) \<Rightarrow> 'a prog" where
  "try_except m h = (\<lambda>s.
     case m s of
       (Inl (Exception msg), s1, o1) \<Rightarrow>
         (case h (Exception msg) s1 of (r, s2, o2) \<Rightarrow> (r, s2, o1 @ o2))
     | r \<Rightarrow> r)"

text \<open>
  \<open>try: m  finally: fin\<close>: \<open>fin\<close> runs on every exit of \<open>m\<close>; the outcome of \<open>m\<close> stands
  unless \<open>fin\<close> itself raises.
\<close>

definition try_finally :: "'a prog \<Rightarrow> unit prog \<Rightarrow> 'a prog" where
  "try_finally m fin = (\<lambda>s.
     case m s of (r, s1, o1) \<Rightarrow>
       (case fin s1 of
          (Inl ex, s2, o2) \<Rightarrow> (Inl ex, s2, o1 @ o2)
        | (Inr _, s2, o2) \<Rightarrow> (r, s2, o1 @ o2)))"

text \<open>The outcome of an external call, as a statement.\<close>

definition of_outcome :: "string + 'a \<Rightarrow> 'a prog" where
  "of_outcome r = (case r of Inl msg \<Rightarrow> raise (Exception msg) | Inr x \<Rightarrow> return x)"

definition emit :: "event \<Rightarrow> unit prog" where
  "emit ev = (\<lambda>s. (Inr (), s, [ev]))"

definition logger :: "level \<Rightarrow> string \<Rightarrow> unit prog" where
  "logger l msg = emit (Log l msg)"

subsection \<open>File system and session state primitives\<close>

text \<open>\<open>os.path.join(a, b)\<close> of posixpath, for two components.\<close>

definition os_path_join :: "path \<Rightarrow> path \<Rightarrow> path" where
  "os_path_join a b =
     (if b \<noteq> [] \<and> hd b = CHR ''/'' then b
      else if a = [] \<or> last a = CHR ''/'' then a @ b
      else a @ ''/'' @ b)"

text \<open>
  The file system is a map from paths to file contents, with no directories:
  \<open>os.makedirs(p, exist_ok=True)\<close> changes nothing in it, and raises when it fails.
\<close>

definition os_makedirs :: "env \<Rightarrow> path \<Rightarrow> unit prog" where
  "os_makedirs e p = (\<lambda>s.
     case makedirs_error e (files s) p of
       Some msg \<Rightarrow> (Inl (Exception msg), s, [])
     | None \<Rightarrow> (Inr (), s, []))"

text \<open>
  \<open>with open(p, "wb") as f: f.write(buf)\<close>, in its two steps. \<open>open\<close> creates the file
  or truncates it, or raises and leaves the file system as it is. \<open>f.write(buf)\<close> with
  the close at the end of the \<open>with\<close> block puts \<open>buf\<close> into the file, or raises with
  only the first \<open>n\<close> bytes in the file, which stays on disk.
\<close>

definition open_wb :: "env \<Rightarrow> path \<Rightarrow> unit prog" where
  "open_wb e p = (\<lambda>s.
     case open_error e (files s) p of
       Some msg \<Rightarrow> (Inl (Exception msg), s, [])
     | None \<Rightarrow> (Inr (), s\<lparr>files := (files s)(p \<mapsto> [])\<rparr>, []))"

definition f_write :: "env \<Rightarrow> path \<Rightarrow> bytes \<Rightarrow> unit prog" where
  "f_write e p buf = (\<lambda>s.
     case write_error e (files s) p buf of
       Some (msg, n) \<Rightarrow> (Inl (Exception msg), s\<lparr>files := (files s)(p \<mapsto> take n buf)\<rparr>, [])
     | None \<Rightarrow> (Inr (), s\<lparr>files := (files s)(p \<mapsto> buf)\<rparr>, []))"

definition os_path_exists :: "path \<Rightarrow> bool prog" where
  "os_path_exists p = (\<lambda>s. (Inr (p \<in> dom (files s)), s, []))"

text \<open>
  \<open>os.remove(p)\<close> raises when there is no such file (the message is abridged) and when
  the removal fails; the file then stays.
\<close>

definition os_remove :: "env \<Rightarrow> path \<Rightarrow> unit prog" where
  "os_remove e p = (\<lambda>s.
     if p \<notin> dom (files s) then (Inl (Exception ''[Errno 2] No such file or directory''), s, [])
     else
       case remove_error e (files s) p of
         Some msg \<Rightarrow> (Inl (Exception msg), s, [])
       | None \<Rightarrow> (Inr (), s\<lparr>files := (files s)(p := None)\<rparr>, []))"

definition run_loader :: "env \<Rightarrow> path \<Rightarrow> document list prog" where
  "run_loader e p = (\<lambda>s.
     case loader_load e (files s) p of
       (r, fs') \<Rightarrow> of_outcome r (s\<lparr>files := fs'\<rparr>))"

text \<open>\<open>data[0]\<close>\<close>

definition index0 :: "'a list \<Rightarrow> 'a prog" where
  "index0 xs = (case xs of [] \<Rightarrow> raise (Exception ''list index out of range'')
                | x # _ \<Rightarrow> return x)"

text \<open>\<open>k in st.session_state\<close>, \<open>st.session_state.k\<close>, assignment and \<open>del\<close>.\<close>

definition session_contains :: "string \<Rightarrow> bool prog" where
  "session_contains k = (\<lambda>s. (Inr (k \<in> dom (session_state s)), s, []))"

definition session_get :: "string \<Rightarrow> json prog" where
  "session_get k = (\<lambda>s.
     case session_state s k of
       None \<Rightarrow> (Inl (Exception (''st.session_state has no attribute '' @ k)), s, [])
     | Some v \<Rightarrow> (Inr v, s, []))"

definition session_set :: "string \<Rightarrow> json \<Rightarrow> unit prog" where
  "session_set k v = (\<lambda>s. (Inr (), s\<lparr>session_state := (session_state s)(k \<mapsto> v)\<rparr>, []))"

definition session_del :: "string \<Rightarrow> unit prog" where
  "session_del k = (\<lambda>s. (Inr (), s\<lparr>session_state := (session_state s)(k := None)\<rparr>, []))"

section \<open>Core logic\<close>

subsection \<open>load_docx\<close>

definition temp_path_of :: "uploaded_file \<Rightarrow> path" where
  "temp_path_of uf = os_path_join ''temp'' (name uf)"

text \<open>
  \<open>load_docx\<close> in two parts. \<open>save_upload\<close> is lines 57 to 64: it saves the upload and
  gives the path. These lines stand before the \<open>try\<close> statement, so an exception raised
  while saving leaves \<open>load_docx\<close> without passing through \<open>finally\<close>.
\<close>

definition save_upload :: "env \<Rightarrow> uploaded_file \<Rightarrow> path prog" where
  "save_upload e uf =
     bind (os_makedirs e ''temp'') (\<lambda>_.
     (let temp_path = temp_path_of uf in
      bind (logger INFO (''Saving uploaded file to temporary path: '' @ temp_path)) (\<lambda>_.
      bind (open_wb e temp_path) (\<lambda>_.
      bind (f_write e temp_path (getbuffer uf)) (\<lambda>_.
      return temp_path)))))"

definition load_docx :: "env \<Rightarrow> uploaded_file \<Rightarrow> string prog" where
  "load_docx e uf =
     bind (save_upload e uf) (\<lambda>temp_path.
     bind
       (try_finally
          (try_except
             (bind (logger INFO ''Loading document content...'') (\<lambda>_.
              bind (run_loader e temp_path) (\<lambda>data.
              bind (index0 data) (\<lambda>d.
              bind (logger INFO ''Document content loaded successfully.'') (\<lambda>_.
              return (page_content d))))))
             (\<lambda>ex.
                bind (logger ERROR (''Error loading document: '' @ exn_str ex)) (\<lambda>_.
                raise ex)))
          (bind (os_path_exists temp_path) (\<lambda>ex.
           if_then ex
             (block
                [os_remove e temp_path,
                 logger INFO (''Cleaned up temporary file: '' @ temp_path)]))))
       (\<lambda>content. return content))"

subsection \<open>analyze_risk\<close>

text \<open>\<open>os.getenv(k, d)\<close>\<close>

definition getenv_default :: "env \<Rightarrow> string \<Rightarrow> string \<Rightarrow> string" where
  "getenv_default e k d = (case getenv e k of None \<Rightarrow> d | Some v \<Rightarrow> v)"

text \<open>
  \<open>ChatGoogleGenerativeAI(model=m, temperature=t, google_api_key=k)\<close>, the temperature in
  tenths. With an API key the constructor checks and stores its arguments and builds
  the client object, without a network call. Without one (\<open>None\<close> or the empty string) it
  falls back on the default credentials of the environment, and raises when there are
  none.
\<close>

definition ChatGoogleGenerativeAI :: "env \<Rightarrow> string \<Rightarrow> nat \<Rightarrow> string option \<Rightarrow> llm prog" where
  "ChatGoogleGenerativeAI e m t k =
     (let client = \<lparr>model = m, temperature_tenths = t, google_api_key = k\<rparr> in
      if k = None \<or> k = Some [] then
        (case credentials_error e k of
           Some msg \<Rightarrow> raise (Exception msg)
         | None \<Rightarrow> return client)
      else return client)"

text \<open>\<open>chain.invoke\<close> of the risk chain: the network call, recorded as an event.\<close>

definition invoke_risk_chain :: "env \<Rightarrow> llm \<Rightarrow> string \<Rightarrow> json prog" where
  "invoke_risk_chain e l t =
     bind (emit (Chain_invoke Risk_chain l)) (\<lambda>_. of_outcome (risk_chain e l t))"

definition analyze_risk :: "env \<Rightarrow> string \<Rightarrow> json prog" where
  "analyze_risk e text_content =
     bind (logger INFO ''Starting risk assessment analysis...'') (\<lambda>_.
     let model_name = getenv_default e ''MODELAI'' ''gemini-flash-latest'';
         api_key = getenv e ''GOOGLE_API_KEY''
     in
     if api_key = None \<or> api_key = Some [] then
       bind (logger ERROR ''GOOGLE_API_KEY not found.'') (\<lambda>_.
       bind (emit (St_error ''Error: GOOGLE_API_KEY not found in environment variables.'')) (\<lambda>_.
       return (JArr [])))
     else
       bind (ChatGoogleGenerativeAI e model_name 3 api_key) (\<lambda>llm.
       try_except
         (bind (invoke_risk_chain e llm text_content) (\<lambda>response.
          bind (logger INFO ''Risk assessment analysis completed successfully.'') (\<lambda>_.
          return response)))
         (\<lambda>ex.
            bind (logger ERROR (''Error during risk assessment analysis: '' @ exn_str ex)) (\<lambda>_.
            bind (emit (St_error (''Error parsing AI response: '' @ exn_str ex))) (\<lambda>_.
            return (JArr []))))))"

subsection \<open>generate_report_narrative\<close>

text \<open>\<open>s.replace(old, new)\<close>: every non-overlapping occurrence, from the left.\<close>

fun py_replace :: "string \<Rightarrow> string \<Rightarrow> string \<Rightarrow> string" where
  "py_replace old new [] = (if old = [] then new else [])"
| "py_replace old new (c # cs) =
     (if old = [] then new @ c # py_replace old new cs
      else if take (length old) (c # cs) = old
        then new @ py_replace old new (drop (length old) (c # cs))
      else c # py_replace old new cs)"

text \<open>
  \<open>s.strip()\<close> removes the white space at both ends. Among the code points below 256,
  \<open>str.isspace\<close> holds for 9 to 13, 28 to 32, 133 (next line) and 160 (no-break space).
\<close>

definition py_isspace :: "char \<Rightarrow> bool" where
  "py_isspace c =
     (let n = (of_char c :: nat) in
      (9 \<le> n \<and> n \<le> 13) \<or> (28 \<le> n \<and> n \<le> 32) \<or> n = 133 \<or> n = 160)"

definition py_strip :: "string \<Rightarrow> string" where
  "py_strip s = rev (dropWhile py_isspace (rev (dropWhile py_isspace s)))"

definition invoke_narrative_chain :: "env \<Rightarrow> llm \<Rightarrow> json \<Rightarrow> json \<Rightarrow> string prog" where
  "invoke_narrative_chain e l t r =
     bind (emit (Chain_invoke Narrative_chain l)) (\<lambda>_. of_outcome (narrative_chain e l t r))"

text \<open>
  The client is built at line 140, before the \<open>try\<close> statement and with whatever
  \<open>os.getenv\<close> gave for the key: there is no test of the key as in \<open>analyze_risk\<close>.
\<close>

definition generate_report_narrative :: "env \<Rightarrow> json \<Rightarrow> json \<Rightarrow> string prog" where
  "generate_report_narrative e text_content risks_data =
     bind (logger INFO ''Generating report narrative...'') (\<lambda>_.
     let model_name = getenv_default e ''MODELAI'' ''gemini-flash-latest'';
         api_key = getenv e ''GOOGLE_API_KEY''
     in
     bind (ChatGoogleGenerativeAI e model_name 5 api_key) (\<lambda>llm.
     try_except
       (bind (invoke_narrative_chain e llm text_content risks_data) (\<lambda>response.
        let cleaned_response =
              py_strip (py_replace ''```'' [] (py_replace ''```markdown'' [] response))
        in return cleaned_response))
       (\<lambda>ex.
          bind (logger ERROR (''Error generating report narrative: '' @ exn_str ex)) (\<lambda>_.
          return ''Error generating report narrative.''))))"

subsection \<open>convert_to_pdf\<close>

fun str_of_nat :: "nat \<Rightarrow> string" where
  "str_of_nat n =
     (if n < 10 then [char_of (48 + n)]
      else str_of_nat (n div 10) @ [char_of (48 + n mod 10)])"

definition convert_to_pdf :: "env \<Rightarrow> string \<Rightarrow> bytes option prog" where
  "convert_to_pdf e source_html =
     bind (of_outcome (pisa_CreatePDF e source_html)) (\<lambda>pisa_status.
     case pisa_status of
       (err, result) \<Rightarrow>
         if err \<noteq> 0 then
           bind (logger ERROR (''PDF generation error: '' @ str_of_nat err)) (\<lambda>_.
           return None)
         else return (Some result))"

section \<open>pandas\<close>

text \<open>
  \<open>pd.DataFrame(data)\<close>. For a list of dicts the columns are the keys in order of first
  appearance over the records (no sorting, no fixed schema), and a record without a
  column has no value there. A key that the JSON text of a record repeats keeps its
  first place and its last value. Every other shape is left to \<open>frame_other\<close>.
\<close>

fun is_dict :: "json \<Rightarrow> bool" where
  "is_dict (JObj kvs) = True"
| "is_dict _ = False"

fun dict_items :: "json \<Rightarrow> (string \<times> json) list" where
  "dict_items (JObj kvs) = kvs"
| "dict_items _ = []"

fun unique_in_order :: "'a list \<Rightarrow> 'a list \<Rightarrow> 'a list" where
  "unique_in_order seen [] = []"
| "unique_in_order seen (x # xs) =
     (if x \<in> set seen then unique_in_order seen xs
      else x # unique_in_order (x # seen) xs)"

definition frame_columns :: "json list \<Rightarrow> string list" where
  "frame_columns recs = unique_in_order [] (concat (map (\<lambda>r. map fst (dict_items r)) recs))"

definition frame_of_records :: "json list \<Rightarrow> dataframe" where
  "frame_of_records recs =
     (let cols = frame_columns recs in
      \<lparr>columns = cols, rows = map (\<lambda>r. map (map_of (rev (dict_items r))) cols) recs\<rparr>)"

definition pd_DataFrame :: "env \<Rightarrow> json \<Rightarrow> dataframe prog" where
  "pd_DataFrame e data =
     (case data of
        JArr recs \<Rightarrow>
          if list_all is_dict recs then return (frame_of_records recs)
          else of_outcome (frame_other e data)
      | _ \<Rightarrow> of_outcome (frame_other e data))"

text \<open>\<open>df.to_markdown(index=False)\<close>\<close>

definition to_markdown :: "env \<Rightarrow> dataframe \<Rightarrow> string prog" where
  "to_markdown e df = of_outcome (tabulate_pipe e (columns df) (rows df))"

section \<open>UI implementation\<close>

definition st_button :: "request \<Rightarrow> button \<Rightarrow> bool prog" where
  "st_button rq b = bind (emit (St_button b)) (\<lambda>_. return (clicked rq = Some b))"

definition st_file_uploader :: "request \<Rightarrow> uploaded_file option prog" where
  "st_file_uploader rq = bind (emit St_file_uploader) (\<lambda>_. return (uploaded rq))"

subsection \<open>render_home_page\<close>

text \<open>
  The page functions are given in named parts, each the block of source lines stated.
  \<open>perform_assessment\<close> is the body of \<open>if uploaded_file is not None:\<close> (lines 261 to 279).
\<close>

definition perform_assessment :: "env \<Rightarrow> uploaded_file \<Rightarrow> unit prog" where
  "perform_assessment e uf =
     bind (logger INFO (''User initiated assessment for file: '' @ name uf)) (\<lambda>_.
     bind (emit (St_spinner ''Analyzing security risks...'')) (\<lambda>_.
     try_except
       (bind (load_docx e uf) (\<lambda>content.
        bind (session_set ''original_text'' (JStr content)) (\<lambda>_.
        if content = [] then
          block
            [logger WARNING ''No content extracted from document.'',
             emit (St_error ''Could not extract text from the document.'')]
        else
          bind (analyze_risk e content) (\<lambda>risks.
          bind (session_set ''risk_data'' risks) (\<lambda>_.
          bind (session_contains ''full_report_md'') (\<lambda>has.
          if_then has (session_del ''full_report_md'')))))))
       (\<lambda>ex. emit (St_error (''An error occurred: '' @ exn_str ex)))))"

text \<open>\<open>display_results\<close> is \<open>if st.session_state.risk_data:\<close> with its body (lines 285 to 309).\<close>

definition display_results :: "env \<Rightarrow> request \<Rightarrow> unit prog" where
  "display_results e rq =
     bind (session_get ''risk_data'') (\<lambda>risk_data.
     if_then (truthy risk_data)
       (bind (emit (St_success ''Assessment Complete!'')) (\<lambda>_.
        bind (session_get ''risk_data'') (\<lambda>rd.
        bind (pd_DataFrame e rd) (\<lambda>df.
        bind (emit (St_subheader ''Risk Assessment Table'')) (\<lambda>_.
        bind (emit (St_dataframe df)) (\<lambda>_.
        bind (of_outcome (to_csv e df)) (\<lambda>csv.
        bind (emit (St_download_button Download_Table_as_CSV (Text (JStr csv)))) (\<lambda>_.
        bind (st_button rq Generate_Full_Report) (\<lambda>go.
        if_then go
          (block [session_set ''page'' (JStr ''report''), raise RerunException])))))))))))"

definition render_home_page :: "env \<Rightarrow> request \<Rightarrow> unit prog" where
  "render_home_page e rq =
     bind (emit (St_markdown_html Main_Header)) (\<lambda>_.
     bind (st_file_uploader rq) (\<lambda>uploaded_file.
     bind (st_button rq Perform_Security_Assessment) (\<lambda>pressed.
     bind
       (if_then pressed
          (case uploaded_file of
             Some uf \<Rightarrow> perform_assessment e uf
           | None \<Rightarrow>
               block
                 [logger WARNING
                    ''User attempted to perform assessment without uploading a file.'',
                  emit (St_warning ''Please upload a DOCX file first.'')]))
       (\<lambda>_.
     bind (display_results e rq) (\<lambda>_.
     emit (St_markdown_html Footer))))))"

subsection \<open>render_report_page\<close>

text \<open>The f-string that wraps the HTML in the style sheet for the PDF.\<close>

definition html_with_style :: "string \<Rightarrow> string" where
  "html_with_style html_text =
     ''\<newline>'' @
     ''            <html>\<newline>'' @
     ''            <head>\<newline>'' @
     ''            <style>\<newline>'' @
     ''                body { font-family: Helvetica, sans-serif; font-size: 12px; }\<newline>'' @
     ''                h1 { color: #333; font-size: 24px; }\<newline>'' @
     ''                h2 { color: #555; font-size: 18px; margin-top: 20px; }\<newline>'' @
     ''                table { width: 100%; border-collapse: collapse; margin-top: 10px; }\<newline>'' @
     ''                th, td { border: 1px solid #ddd; padding: 8px; text-align: left; }\<newline>'' @
     ''                th { background-color: #f2f2f2; }\<newline>'' @
     ''            </style>\<newline>'' @
     ''            </head>\<newline>'' @
     ''            <body>\<newline>'' @
     ''            '' @ html_text @ ''\<newline>'' @
     ''            </body>\<newline>'' @
     ''            </html>\<newline>'' @
     ''            ''"

text \<open>
  The report assembly of \<open>render_report_page\<close>: the table Markdown of the risk data and
  the f-string \<open>f"{narrative}\n\n## Risk Assessment\n\n{table_md}"\<close>.
\<close>

definition assemble_report :: "env \<Rightarrow> string \<Rightarrow> json \<Rightarrow> string prog" where
  "assemble_report e narrative risk_data =
     bind (pd_DataFrame e risk_data) (\<lambda>df.
     bind (to_markdown e df) (\<lambda>table_md.
     return (narrative @ ''\<newline>\<newline>## Risk Assessment\<newline>\<newline>'' @ table_md)))"

text \<open>\<open>'full_report_md' not in st.session_state or st.session_state.full_report_md is None\<close>\<close>

definition report_not_generated :: "bool prog" where
  "report_not_generated =
     bind (session_contains ''full_report_md'') (\<lambda>has.
     if \<not> has then return True
     else bind (session_get ''full_report_md'') (\<lambda>v. return (v = JNull)))"

text \<open>\<open>st.session_state.risk_data and st.session_state.original_text\<close>, as a condition.\<close>

definition has_risk_data_and_text :: "bool prog" where
  "has_risk_data_and_text =
     bind (session_get ''risk_data'') (\<lambda>rd.
     if \<not> truthy rd then return False
     else bind (session_get ''original_text'') (\<lambda>ot. return (truthy ot)))"


text \<open>\<open>generate_full_report\<close> is the body of the memoization test (lines 324 to 333).\<close>

definition generate_full_report :: "env \<Rightarrow> unit prog" where
  "generate_full_report e =
     bind (emit (St_spinner ''Generating narrative report...'')) (\<lambda>_.
     bind (session_get ''original_text'') (\<lambda>ot.
     bind (session_get ''risk_data'') (\<lambda>rd.
     bind (generate_report_narrative e ot rd) (\<lambda>narrative.
     bind (session_get ''risk_data'') (\<lambda>rd'.
     bind (assemble_report e narrative rd') (\<lambda>md.
     session_set ''full_report_md'' (JStr md)))))))"

text \<open>\<open>display_report\<close> shows the report and its download buttons (lines 336 to 384).\<close>

definition display_report :: "env \<Rightarrow> unit prog" where
  "display_report e =
     bind (session_get ''full_report_md'') (\<lambda>md.
     bind (emit (St_markdown md)) (\<lambda>_.
     bind (emit (St_download_button Download_Report_Markdown (Text md))) (\<lambda>_.
     bind (of_outcome (markdown_markdown e md)) (\<lambda>html_text.
     bind (convert_to_pdf e (html_with_style html_text)) (\<lambda>pdf_bytes.
     case pdf_bytes of
       Some b \<Rightarrow>
         if b \<noteq> [] then emit (St_download_button Download_Report_PDF (Binary b))
         else emit (St_error ''Failed to generate PDF.'')
     | None \<Rightarrow> emit (St_error ''Failed to generate PDF.''))))))"

definition render_report_page :: "env \<Rightarrow> request \<Rightarrow> unit prog" where
  "render_report_page e rq =
     bind (st_button rq Back_to_Assessment) (\<lambda>_.
     bind has_risk_data_and_text (\<lambda>ok.
     if ok then
       bind report_not_generated (\<lambda>missing.
       bind (if_then missing (generate_full_report e)) (\<lambda>_.
       display_report e))
     else emit (St_error ''No data available. Please perform an assessment first.'')))"

subsection \<open>main\<close>

text \<open>\<open>if k not in st.session_state: st.session_state.k = v\<close>\<close>

definition session_init :: "string \<Rightarrow> json \<Rightarrow> unit prog" where
  "session_init k v =
     bind (session_contains k) (\<lambda>has. if_then (\<not> has) (session_set k v))"

definition main :: "env \<Rightarrow> request \<Rightarrow> unit prog" where
  "main e rq =
     bind (logger INFO ''Application starting...'') (\<lambda>_.
     if ''healthz'' \<in> set (map fst (query_params rq)) then emit (St_write ''OK'')
     else
       bind (logger INFO ''Application starting...'') (\<lambda>_.
       bind (emit St_set_page_config) (\<lambda>_.
       bind (emit (St_markdown_html Custom_CSS)) (\<lambda>_.
       bind (session_init ''page'' (JStr ''home'')) (\<lambda>_.
       bind (session_init ''risk_data'' JNull) (\<lambda>_.
       bind (session_init ''original_text'' JNull) (\<lambda>_.
       bind (session_get ''page'') (\<lambda>page.
       if page = JStr ''home'' then render_home_page e rq
       else if page = JStr ''report'' then render_report_page e rq
       else return ()))))))))"

subsection \<open>The Streamlit runtime\<close>



section \<open>Observations used in the properties\<close>

text \<open>
  An invocation of \<open>generate_report_narrative\<close> shows as its first log line, and its
  request to the LLM as an invocation of the narrative chain.
\<close>

fun is_narrative_entry :: "event \<Rightarrow> bool" where
  "is_narrative_entry (Log l msg) = (l = INFO \<and> msg = ''Generating report narrative...'')"
| "is_narrative_entry _ = False"

fun is_narrative_request :: "event \<Rightarrow> bool" where
  "is_narrative_request (Chain_invoke c l) = (c = Narrative_chain)"
| "is_narrative_request _ = False"

text \<open>Any request to an LLM.\<close>

fun is_chain_invoke :: "event \<Rightarrow> bool" where
  "is_chain_invoke (Chain_invoke c l) = True"
| "is_chain_invoke _ = False"

text \<open>
  The Risk Record fields in the order of the data model; it is the order in which the
  prompt of \<open>analyze_risk\<close> lists the keys.
\<close>

definition risk_record_fields :: "string list" where
  "risk_record_fields =
     [''Feature Name'', ''Threat Type'', ''Description'', ''Risk'', ''Recommendation'',
      ''Risk Level'']"

subsection \<open>A concrete environment, for evaluation\<close>

definition example_record :: json where
  "example_record =
     JObj [(''Feature Name'', JStr ''Password Reset''), (''Threat Type'', JStr ''Spoofing''),
           (''Description'', JStr ''...''), (''Risk'', JStr ''...''),
           (''Recommendation'', JStr ''...''), (''Risk Level'', JStr ''High'')]"

text \<open>The same record with the risk level listed first.\<close>

definition reordered_record :: json where
  "reordered_record =
     JObj [(''Risk Level'', JStr ''High''), (''Feature Name'', JStr ''Password Reset''),
           (''Threat Type'', JStr ''Spoofing''), (''Description'', JStr ''...''),
           (''Risk'', JStr ''...''), (''Recommendation'', JStr ''...'')]"

text \<open>A header line in pipe format; the cells are left out.\<close>

fun pipe_row :: "string list \<Rightarrow> string" where
  "pipe_row [] = ''|''"
| "pipe_row (c # cs) = ''| '' @ c @ '' '' @ pipe_row cs"

definition example_env :: env where
  "example_env =
     \<lparr>getenv = (\<lambda>k. if k = ''GOOGLE_API_KEY'' then Some ''secret'' else None),
      makedirs_error = (\<lambda>fs p. None),
      open_error = (\<lambda>fs p. None),
      write_error = (\<lambda>fs p buf. None),
      remove_error = (\<lambda>fs p. None),
      loader_load = (\<lambda>fs p.
        (case fs p of
           None \<Rightarrow> Inl ''File path is not a valid file or url''
         | Some b \<Rightarrow>
             if b = [] then Inl ''File is not a zip file''
             else Inr [\<lparr>page_content =
                         ''System allows anonymous password reset via email link.''\<rparr>],
         fs)),
      credentials_error = (\<lambda>k. Some ''Your default credentials were not found.''),
      risk_chain = (\<lambda>l t. Inr (JArr [example_record])),
      narrative_chain = (\<lambda>l t r. Inr ''```markdown\<newline># Security Assessment Report\<newline>```''),
      frame_other = (\<lambda>d. Inl ''DataFrame constructor not properly called!''),
      tabulate_pipe = (\<lambda>cols cells. Inr (pipe_row cols)),
      to_csv = (\<lambda>df. Inr []),
      markdown_markdown = (\<lambda>md. Inr ''<h1>Security Assessment Report</h1>''),
      pisa_CreatePDF = (\<lambda>html. Inr (0, [0x25, 0x50, 0x44, 0x46]))\<rparr>"

definition example_upload :: uploaded_file where
  "example_upload = \<lparr>name = ''prd.docx'', getbuffer = [0x50, 0x4B, 0x03, 0x04]\<rparr>"


definition empty_upload :: uploaded_file where
  "empty_upload = \<lparr>name = ''prd.docx'', getbuffer = []\<rparr>"

definition fresh_sys :: sys where
  "fresh_sys = \<lparr>files = Map.empty, session_state = Map.empty\<rparr>"


text \<open>A session with an analysis and its text, and no report yet.\<close>

definition analysed_sys :: sys where
  "analysed_sys =
     \<lparr>files = Map.empty,
      session_state =
        [''page'' \<mapsto> JStr ''report'', ''risk_data'' \<mapsto> JArr [example_record],
         ''original_text'' \<mapsto>
           JStr ''System allows anonymous password reset via email link.'']\<rparr>"

definition no_request :: request where
  "no_request = \<lparr>query_params = [], uploaded = None, clicked = None\<rparr>"

text \<open>A session that holds an earlier analysis and its memoized report.\<close>

definition reported_sys :: sys where
  "reported_sys =
     \<lparr>files = Map.empty,
      session_state =
        [''page'' \<mapsto> JStr ''home'', ''risk_data'' \<mapsto> JArr [reordered_record],
         ''original_text'' \<mapsto> JStr ''An earlier document.'',
         ''full_report_md'' \<mapsto> JStr ''An earlier report.'']\<rparr>"

definition assess_request :: request where
  "assess_request =
     \<lparr>query_params = [], uploaded = Some example_upload,
      clicked = Some Perform_Security_Assessment\<rparr>"

definition back_request :: request where
  "back_request = \<lparr>query_params = [], uploaded = None, clicked = Some Back_to_Assessment\<rparr>"

section \<open>Reasoning about statements\<close>

text \<open>
  Each part of the program is characterised once: what it returns, the state it leaves
  and the events it issues. The properties below are assembled from these facts.
\<close>

lemmas prog_defs = return_def raise_def bind_def if_then_def try_except_def try_finally_def
  emit_def logger_def of_outcome_def
lemmas session_defs = session_contains_def session_get_def session_set_def session_del_def


lemma client_with_key:
  "k \<noteq> [] \<Longrightarrow>
   ChatGoogleGenerativeAI e m t (Some k) s =
     (Inr \<lparr>model = m, temperature_tenths = t, google_api_key = Some k\<rparr>, s, [])"
  by (simp add: ChatGoogleGenerativeAI_def return_def Let_def)


lemma client_ex:
  "(\<exists>msg. ChatGoogleGenerativeAI e m t k s = (Inl (Exception msg), s, [])) \<or>
   ChatGoogleGenerativeAI e m t k s =
     (Inr \<lparr>model = m, temperature_tenths = t, google_api_key = k\<rparr>, s, [])"
  by (cases "credentials_error e k")
     (simp_all add: ChatGoogleGenerativeAI_def return_def raise_def Let_def)

lemma pd_DataFrame_ex: "\<exists>r. pd_DataFrame e d s = (r, s, [])"
  by (simp add: pd_DataFrame_def prog_defs split: json.splits sum.splits)

lemma assemble_report_ex: "\<exists>r. assemble_report e n d s = (r, s, [])"
proof -
  obtain r where r: "pd_DataFrame e d s = (r, s, [])" using pd_DataFrame_ex by blast
  show ?thesis
  proof (cases r)
    case (Inl ex)
    with r show ?thesis by (simp add: assemble_report_def bind_def)
  next
    case (Inr df)
    with r show ?thesis
      by (cases "tabulate_pipe e (columns df) (rows df)")
         (simp_all add: assemble_report_def to_markdown_def prog_defs)
  qed
qed

lemma narrative_ex:
  "\<exists>x evs. generate_report_narrative e t r s = (x, s, evs) \<and>
     length (filter is_narrative_entry evs) = 1 \<and> length (filter is_narrative_request evs) \<le> 1"
proof -
  let ?l = "\<lparr>model = getenv_default e ''MODELAI'' ''gemini-flash-latest'',
         temperature_tenths = 5, google_api_key = getenv e ''GOOGLE_API_KEY''\<rparr>"
  from client_ex[of e "getenv_default e ''MODELAI'' ''gemini-flash-latest''" 5
      "getenv e ''GOOGLE_API_KEY''" s]
  show ?thesis
  proof
    assume "\<exists>msg. ChatGoogleGenerativeAI e (getenv_default e ''MODELAI'' ''gemini-flash-latest'') 5
       (getenv e ''GOOGLE_API_KEY'') s = (Inl (Exception msg), s, [])"
    then show ?thesis
      by (auto simp add: generate_report_narrative_def bind_def logger_def emit_def Let_def)
  next
    assume "ChatGoogleGenerativeAI e (getenv_default e ''MODELAI'' ''gemini-flash-latest'') 5
       (getenv e ''GOOGLE_API_KEY'') s = (Inr ?l, s, [])"
    then show ?thesis
      by (cases "narrative_chain e ?l t r")
         (simp_all add: generate_report_narrative_def invoke_narrative_chain_def
            bind_def logger_def emit_def try_except_def of_outcome_def raise_def return_def Let_def)
  qed
qed

lemma convert_to_pdf_ex:
  "\<exists>r evs. convert_to_pdf e h s = (r, s, evs) \<and>
     \<not> list_ex is_narrative_entry evs \<and> \<not> list_ex is_narrative_request evs"
proof (cases "pisa_CreatePDF e h")
  case (Inl msg)
  then show ?thesis by (simp add: convert_to_pdf_def prog_defs)
next
  case (Inr st)
  then show ?thesis by (cases st) (simp add: convert_to_pdf_def prog_defs)
qed

lemma display_report_ex:
  "\<exists>r evs. display_report e s = (r, s, evs) \<and>
     \<not> list_ex is_narrative_entry evs \<and> \<not> list_ex is_narrative_request evs"
proof (cases "session_state s ''full_report_md''")
  case None
  then show ?thesis by (simp add: display_report_def bind_def session_get_def)
next
  case (Some md)
  show ?thesis
  proof (cases "markdown_markdown e md")
    case (Inl msg)
    with Some show ?thesis
      by (simp add: display_report_def prog_defs session_get_def)
  next
    case (Inr html)
    obtain r evs where c: "convert_to_pdf e (html_with_style html) s = (r, s, evs)"
      "\<not> list_ex is_narrative_entry evs" "\<not> list_ex is_narrative_request evs"
      using convert_to_pdf_ex by blast
    show ?thesis
    proof (cases r)
      case (Inl ex)
      with Some Inr c show ?thesis
        by (simp add: display_report_def prog_defs session_get_def)
    next
      case pdf: (Inr pdf_bytes)
      with Some Inr c show ?thesis
        by (cases pdf_bytes) (simp_all add: display_report_def prog_defs session_get_def)
    qed
  qed
qed

lemma generate_full_report_ex:
  "\<exists>r s' evs. generate_full_report e s = (r, s', evs) \<and>
     length (filter is_narrative_entry evs) \<le> 1 \<and>
     length (filter is_narrative_request evs) \<le> 1 \<and>
     (case r of
        Inl ex \<Rightarrow> s' = s
      | Inr u \<Rightarrow> \<exists>md. s' = s\<lparr>session_state := (session_state s)(''full_report_md'' \<mapsto> JStr md)\<rparr>)"
proof (cases "session_state s ''original_text''")
  case None
  then show ?thesis by (simp add: generate_full_report_def prog_defs session_get_def)
next
  case ot: (Some ot)
  show ?thesis
  proof (cases "session_state s ''risk_data''")
    case None
    with ot show ?thesis by (simp add: generate_full_report_def prog_defs session_get_def)
  next
    case rd: (Some rd)
    obtain x evs where n: "generate_report_narrative e ot rd s = (x, s, evs)"
      "length (filter is_narrative_entry evs) = 1" "length (filter is_narrative_request evs) \<le> 1"
      using narrative_ex by blast
    show ?thesis
    proof (cases x)
      case (Inl ex)
      with ot rd n show ?thesis
        by (simp add: generate_full_report_def prog_defs session_defs)
    next
      case (Inr narrative)
      obtain r where r: "assemble_report e narrative rd s = (r, s, [])"
        using assemble_report_ex by blast
      from ot rd n Inr r show ?thesis
        by (cases r) (auto simp add: generate_full_report_def prog_defs session_defs)
    qed
  qed
qed

lemma report_not_generated_ex: 
  "report_not_generated s =
     (Inr (session_state s ''full_report_md'' = None \<or>
           session_state s ''full_report_md'' = Some JNull), s, [])"
  by (cases "session_state s ''full_report_md''")
     (auto simp add: report_not_generated_def prog_defs session_defs dom_def)

lemma has_risk_data_and_text_ex: "\<exists>r. has_risk_data_and_text s = (r, s, [])"
  by (cases "session_state s ''risk_data''"; cases "session_state s ''original_text''")
     (simp_all add: has_risk_data_and_text_def prog_defs session_defs)

lemma render_report_no_data:
  assumes "has_risk_data_and_text s = (Inr False, s', evs)"
  shows "render_report_page e rq s =
     (Inr (), s, [St_button Back_to_Assessment,
                  St_error ''No data available. Please perform an assessment first.''])"
proof -
  from assms has_risk_data_and_text_ex[of s] have "has_risk_data_and_text s = (Inr False, s, [])"
    by auto
  then show ?thesis
    by (simp add: render_report_page_def st_button_def prog_defs)
qed

lemma render_report_raises:
  assumes "has_risk_data_and_text s = (Inl ex, s', evs)"
  shows "render_report_page e rq s = (Inl ex, s, [St_button Back_to_Assessment])"
proof -
  from assms has_risk_data_and_text_ex[of s] have "has_risk_data_and_text s = (Inl ex, s, [])"
    by auto
  then show ?thesis
    by (simp add: render_report_page_def st_button_def prog_defs)
qed

lemma render_report_memoized:
  assumes "session_state s ''full_report_md'' = Some v" "v \<noteq> JNull"
  shows "\<exists>r evs. render_report_page e rq s = (r, s, evs) \<and>
           \<not> list_ex is_narrative_entry evs \<and> \<not> list_ex is_narrative_request evs"
proof -
  obtain ok where ok: "has_risk_data_and_text s = (ok, s, [])"
    using has_risk_data_and_text_ex by blast
  obtain r evs where d: "display_report e s = (r, s, evs)"
      "\<not> list_ex is_narrative_entry evs" "\<not> list_ex is_narrative_request evs"
    using display_report_ex by blast
  have m: "report_not_generated s = (Inr False, s, [])"
    using assms by (simp add: report_not_generated_ex)
  show ?thesis
  proof (cases ok)
    case (Inl ex)
    with ok show ?thesis by (simp add: render_report_page_def st_button_def prog_defs)
  next
    case (Inr b)
    with ok d m show ?thesis
      by (cases b) (simp_all add: render_report_page_def st_button_def prog_defs)
  qed
qed

section \<open>Properties of the core logic\<close>

subsection \<open>analyze_risk\<close>

lemma analyze_risk_no_key:
  assumes "getenv e ''GOOGLE_API_KEY'' = None \<or> getenv e ''GOOGLE_API_KEY'' = Some []"
  shows "analyze_risk e t s =
    (Inr (JArr []), s,
     [Log INFO ''Starting risk assessment analysis...'',
      Log ERROR ''GOOGLE_API_KEY not found.'',
      St_error ''Error: GOOGLE_API_KEY not found in environment variables.''])"
  using assms by (auto simp add: analyze_risk_def prog_defs Let_def)

lemma analyze_risk_chain_fails:
  assumes "getenv e ''GOOGLE_API_KEY'' = Some k" "k \<noteq> []"
    and "risk_chain e \<lparr>model = getenv_default e ''MODELAI'' ''gemini-flash-latest'',
            temperature_tenths = 3, google_api_key = Some k\<rparr> t = Inl msg"
  shows "analyze_risk e t s =
    (Inr (JArr []), s,
     [Log INFO ''Starting risk assessment analysis...'',
      Chain_invoke Risk_chain \<lparr>model = getenv_default e ''MODELAI'' ''gemini-flash-latest'',
            temperature_tenths = 3, google_api_key = Some k\<rparr>,
      Log ERROR (''Error during risk assessment analysis: '' @ msg),
      St_error (''Error parsing AI response: '' @ msg)])"
  using assms by (simp add: analyze_risk_def invoke_risk_chain_def prog_defs Let_def client_with_key)

lemma analyze_risk_chain_ok:
  assumes "getenv e ''GOOGLE_API_KEY'' = Some k" "k \<noteq> []"
    and "risk_chain e \<lparr>model = getenv_default e ''MODELAI'' ''gemini-flash-latest'',
            temperature_tenths = 3, google_api_key = Some k\<rparr> t = Inr v"
  shows "analyze_risk e t s =
    (Inr v, s,
     [Log INFO ''Starting risk assessment analysis...'',
      Chain_invoke Risk_chain \<lparr>model = getenv_default e ''MODELAI'' ''gemini-flash-latest'',
            temperature_tenths = 3, google_api_key = Some k\<rparr>,
      Log INFO ''Risk assessment analysis completed successfully.''])"
  using assms by (simp add: analyze_risk_def invoke_risk_chain_def prog_defs Let_def client_with_key)

lemma analyze_risk_returns: "\<exists>v evs. \<forall>s. analyze_risk e t s = (Inr v, s, evs)"
proof (cases "getenv e ''GOOGLE_API_KEY''")
  case None
  then show ?thesis using analyze_risk_no_key[of e t] by blast
next
  case (Some k)
  show ?thesis
  proof (cases "k = []")
    case True
    with Some show ?thesis using analyze_risk_no_key[of e t] by blast
  next
    case False
    show ?thesis
    proof (cases "risk_chain e \<lparr>model = getenv_default e ''MODELAI'' ''gemini-flash-latest'',
            temperature_tenths = 3, google_api_key = Some k\<rparr> t")
      case (Inl msg)
      show ?thesis using analyze_risk_chain_fails[OF Some False Inl] by blast
    next
      case (Inr v)
      show ?thesis using analyze_risk_chain_ok[OF Some False Inr] by blast
    qed
  qed
qed

text \<open>
  Claim C1. For every input text, \<open>analyze_risk\<close> returns normally, with the state
  unchanged. If the API key is absent (unset or empty) it returns the empty list, logs
  and displays the error, and invokes no chain, so no network call is attempted. If the
  invocation of the risk chain (the LLM call with the JSON parsing of its answer) fails,
  it logs the error, displays it, and returns the empty list.
\<close>

theorem analyze_risk_never_raises:
  "\<exists>v evs. analyze_risk e t s = (Inr v, s, evs) \<and>
     (getenv e ''GOOGLE_API_KEY'' = None \<or> getenv e ''GOOGLE_API_KEY'' = Some [] \<longrightarrow>
        v = JArr [] \<and> \<not> list_ex is_chain_invoke evs \<and>
        Log ERROR ''GOOGLE_API_KEY not found.'' \<in> set evs \<and>
        St_error ''Error: GOOGLE_API_KEY not found in environment variables.'' \<in> set evs) \<and>
     (\<forall>k msg. getenv e ''GOOGLE_API_KEY'' = Some k \<and> k \<noteq> [] \<and>
        risk_chain e \<lparr>model = getenv_default e ''MODELAI'' ''gemini-flash-latest'',
            temperature_tenths = 3, google_api_key = Some k\<rparr> t = Inl msg \<longrightarrow>
        v = JArr [] \<and>
        Log ERROR (''Error during risk assessment analysis: '' @ msg) \<in> set evs \<and>
        St_error (''Error parsing AI response: '' @ msg) \<in> set evs)"
proof (cases "getenv e ''GOOGLE_API_KEY'' = None \<or> getenv e ''GOOGLE_API_KEY'' = Some []")
  case True
  from analyze_risk_no_key[OF True, of t s] True show ?thesis by auto
next
  case False
  then obtain k where k: "getenv e ''GOOGLE_API_KEY'' = Some k" "k \<noteq> []" by auto
  show ?thesis
  proof (cases "risk_chain e \<lparr>model = getenv_default e ''MODELAI'' ''gemini-flash-latest'',
            temperature_tenths = 3, google_api_key = Some k\<rparr> t")
    case (Inl msg)
    from analyze_risk_chain_fails[OF k Inl, of s] k Inl show ?thesis by auto
  next
    case (Inr v)
    from analyze_risk_chain_ok[OF k Inr, of s] k Inr show ?thesis by auto
  qed
qed

theorem analyze_risk_never_raises_witness:
  "(\<exists>evs. analyze_risk (example_env\<lparr>getenv := \<lambda>k. None\<rparr>) ''text'' fresh_sys =
             (Inr (JArr []), fresh_sys, evs) \<and>
          \<not> list_ex is_chain_invoke evs \<and>
          Log ERROR ''GOOGLE_API_KEY not found.'' \<in> set evs \<and>
          St_error ''Error: GOOGLE_API_KEY not found in environment variables.'' \<in> set evs) \<and>
   (\<exists>evs. analyze_risk (example_env\<lparr>risk_chain := \<lambda>l t. Inl ''429 quota exceeded''\<rparr>)
             ''text'' fresh_sys = (Inr (JArr []), fresh_sys, evs) \<and>
          Log ERROR ''Error during risk assessment analysis: 429 quota exceeded'' \<in> set evs \<and>
          St_error ''Error parsing AI response: 429 quota exceeded'' \<in> set evs)"
proof -
  have a: "getenv (example_env\<lparr>getenv := \<lambda>k. None\<rparr>) ''GOOGLE_API_KEY'' = None"
    by (simp add: example_env_def)
  have b: "getenv (example_env\<lparr>risk_chain := \<lambda>l t. Inl ''429 quota exceeded''\<rparr>)
             ''GOOGLE_API_KEY'' = Some ''secret''"
    by (simp add: example_env_def)
  have c: "risk_chain (example_env\<lparr>risk_chain := \<lambda>l t. Inl ''429 quota exceeded''\<rparr>) l t
             = Inl ''429 quota exceeded''" for l t
    by simp
  from analyze_risk_never_raises[of "example_env\<lparr>getenv := \<lambda>k. None\<rparr>" "''text''" fresh_sys] a
  have 1: "\<exists>evs. analyze_risk (example_env\<lparr>getenv := \<lambda>k. None\<rparr>) ''text'' fresh_sys =
             (Inr (JArr []), fresh_sys, evs) \<and>
          \<not> list_ex is_chain_invoke evs \<and>
          Log ERROR ''GOOGLE_API_KEY not found.'' \<in> set evs \<and>
          St_error ''Error: GOOGLE_API_KEY not found in environment variables.'' \<in> set evs"
    by auto
  from analyze_risk_never_raises[of "example_env\<lparr>risk_chain := \<lambda>l t. Inl ''429 quota exceeded''\<rparr>"
      "''text''" fresh_sys] b c
  have 2: "\<exists>evs. analyze_risk (example_env\<lparr>risk_chain := \<lambda>l t. Inl ''429 quota exceeded''\<rparr>)
             ''text'' fresh_sys = (Inr (JArr []), fresh_sys, evs) \<and>
          Log ERROR ''Error during risk assessment analysis: 429 quota exceeded'' \<in> set evs \<and>
          St_error ''Error parsing AI response: 429 quota exceeded'' \<in> set evs"
    by auto
  from 1 2 show ?thesis by blast
qed

subsection \<open>load_docx\<close>

lemmas fs_defs = os_makedirs_def open_wb_def f_write_def os_path_exists_def os_remove_def
  run_loader_def index0_def

text \<open>Saving the upload: where it fails, and what it leaves when it does not.\<close>

lemma save_upload_makedirs_fails:
  assumes "makedirs_error e (files s) ''temp'' = Some msg"
  shows "save_upload e uf s = (Inl (Exception msg), s, [])"
  using assms by (simp add: save_upload_def os_makedirs_def bind_def)

lemma save_upload_open_fails:
  assumes "makedirs_error e (files s) ''temp'' = None"
    and "open_error e (files s) (temp_path_of uf) = Some msg"
  shows "save_upload e uf s =
    (Inl (Exception msg), s,
     [Log INFO (''Saving uploaded file to temporary path: '' @ temp_path_of uf)])"
  using assms by (simp add: save_upload_def os_makedirs_def open_wb_def prog_defs Let_def)

lemma save_upload_write_fails:
  assumes "makedirs_error e (files s) ''temp'' = None"
    and "open_error e (files s) (temp_path_of uf) = None"
    and "write_error e ((files s)(temp_path_of uf \<mapsto> [])) (temp_path_of uf) (getbuffer uf)
           = Some (msg, n)"
  shows "save_upload e uf s =
    (Inl (Exception msg), s\<lparr>files := (files s)(temp_path_of uf \<mapsto> take n (getbuffer uf))\<rparr>,
     [Log INFO (''Saving uploaded file to temporary path: '' @ temp_path_of uf)])"
  using assms
  by (simp add: save_upload_def os_makedirs_def open_wb_def f_write_def prog_defs Let_def)

lemma save_upload_saves:
  assumes "makedirs_error e (files s) ''temp'' = None"
    and "open_error e (files s) (temp_path_of uf) = None"
    and "write_error e ((files s)(temp_path_of uf \<mapsto> [])) (temp_path_of uf) (getbuffer uf) = None"
  shows "save_upload e uf s =
    (Inr (temp_path_of uf), s\<lparr>files := (files s)(temp_path_of uf \<mapsto> getbuffer uf)\<rparr>,
     [Log INFO (''Saving uploaded file to temporary path: '' @ temp_path_of uf)])"
  using assms
  by (simp add: save_upload_def os_makedirs_def open_wb_def f_write_def prog_defs Let_def)

lemma save_upload_ex:
  "\<exists>r s1 o1. save_upload e uf s = (r, s1, o1) \<and> session_state s1 = session_state s \<and>
     (\<forall>q. q \<noteq> temp_path_of uf \<longrightarrow> files s1 q = files s q) \<and>
     (\<forall>p. r = Inr p \<longrightarrow> p = temp_path_of uf \<and> files s1 p = Some (getbuffer uf))"
proof (cases "makedirs_error e (files s) ''temp''")
  case (Some msg)
  from save_upload_makedirs_fails[OF Some] show ?thesis by simp
next
  case mk: None
  show ?thesis
  proof (cases "open_error e (files s) (temp_path_of uf)")
    case (Some msg)
    from save_upload_open_fails[OF mk Some] show ?thesis by simp
  next
    case op: None
    show ?thesis
    proof (cases "write_error e ((files s)(temp_path_of uf \<mapsto> [])) (temp_path_of uf) (getbuffer uf)")
      case None
      from save_upload_saves[OF mk op None] show ?thesis by simp
    next
      case (Some w)
      obtain msg n where "w = (msg, n)" by (cases w)
      with Some save_upload_write_fails[OF mk op, of msg n] show ?thesis by simp
    qed
  qed
qed

lemma save_upload_saved:
  assumes "save_upload e uf s = (Inr p, s1, o1)"
  shows "p = temp_path_of uf" and "files s1 = (files s)(temp_path_of uf \<mapsto> getbuffer uf)"
    and "session_state s1 = session_state s"
proof -
  from save_upload_ex[of e uf s] assms
  have a: "p = temp_path_of uf" "files s1 p = Some (getbuffer uf)"
    "\<forall>q. q \<noteq> temp_path_of uf \<longrightarrow> files s1 q = files s q" "session_state s1 = session_state s"
    by auto
  show "p = temp_path_of uf" "session_state s1 = session_state s" using a by simp_all
  show "files s1 = (files s)(temp_path_of uf \<mapsto> getbuffer uf)"
  proof
    fix q show "files s1 q = ((files s)(temp_path_of uf \<mapsto> getbuffer uf)) q"
      using a by (cases "q = temp_path_of uf") simp_all
  qed
qed

text \<open>
  The exits of \<open>load_docx\<close>. Saving the upload raises; or the upload is saved and the
  loader raises, returns no document, or returns one; or \<open>os.remove\<close> raises in the
  \<open>finally\<close> block.
\<close>

lemma load_docx_not_saved:
  assumes "save_upload e uf s = (Inl ex, s1, o1)"
  shows "load_docx e uf s = (Inl ex, s1, o1)"
  using assms by (simp add: load_docx_def bind_def)

lemma load_docx_saved:
  assumes save: "save_upload e uf s = (Inr p, s1, o1)"
    and load: "loader_load e (files s1) p = (r, fs')"
    and rem: "p \<in> dom fs' \<longrightarrow> remove_error e fs' p = None"
  shows "fst (load_docx e uf s) =
           (case r of
              Inl msg \<Rightarrow> Inl (Exception msg)
            | Inr [] \<Rightarrow> Inl (Exception ''list index out of range'')
            | Inr (d # ds) \<Rightarrow> Inr (page_content d))"
    and "fst (snd (load_docx e uf s)) = s1\<lparr>files := fs'(p := None)\<rparr>"
proof -
  have "fst (load_docx e uf s) =
           (case r of
              Inl msg \<Rightarrow> Inl (Exception msg)
            | Inr [] \<Rightarrow> Inl (Exception ''list index out of range'')
            | Inr (d # ds) \<Rightarrow> Inr (page_content d)) \<and>
        fst (snd (load_docx e uf s)) = s1\<lparr>files := fs'(p := None)\<rparr>"
  proof (cases "p \<in> dom fs'")
    case True
    with rem have "remove_error e fs' p = None" by simp
    with True save load show ?thesis
      by (cases r) (auto simp add: load_docx_def prog_defs fs_defs split: list.splits)
  next
    case False
    then have "fs'(p := None) = fs'" by (auto simp add: domIff)
    with False save load show ?thesis
      by (cases r) (auto simp add: load_docx_def prog_defs fs_defs split: list.splits)
  qed
  then show "fst (load_docx e uf s) =
           (case r of
              Inl msg \<Rightarrow> Inl (Exception msg)
            | Inr [] \<Rightarrow> Inl (Exception ''list index out of range'')
            | Inr (d # ds) \<Rightarrow> Inr (page_content d))"
    and "fst (snd (load_docx e uf s)) = s1\<lparr>files := fs'(p := None)\<rparr>" by simp_all
qed

lemma load_docx_remove_fails:
  assumes save: "save_upload e uf s = (Inr p, s1, o1)"
    and load: "loader_load e (files s1) p = (r, fs')"
    and there: "p \<in> dom fs'"
    and rem: "remove_error e fs' p = Some msg"
  shows "fst (load_docx e uf s) = Inl (Exception msg)"
    and "fst (snd (load_docx e uf s)) = s1\<lparr>files := fs'\<rparr>"
  using assms
  by (cases r; auto simp add: load_docx_def prog_defs fs_defs split: list.splits)+

lemma load_docx_session:
  "session_state (fst (snd (load_docx e uf s))) = session_state s"
proof -
  obtain x s1 o1 where sv: "save_upload e uf s = (x, s1, o1)" by (cases "save_upload e uf s")
  with save_upload_ex[of e uf s] have ss: "session_state s1 = session_state s" by auto
  show ?thesis
  proof (cases x)
    case (Inl ex)
    with sv load_docx_not_saved[of e uf s ex s1 o1] ss show ?thesis by simp
  next
    case (Inr p)
    obtain r fs' where l: "loader_load e (files s1) p = (r, fs')"
      by (cases "loader_load e (files s1) p")
    show ?thesis
    proof (cases "p \<in> dom fs' \<and> remove_error e fs' p \<noteq> None")
      case True
      then obtain msg where "p \<in> dom fs'" "remove_error e fs' p = Some msg" by auto
      from load_docx_remove_fails(2)[OF sv[unfolded Inr] l this] ss show ?thesis by simp
    next
      case False
      then have "p \<in> dom fs' \<longrightarrow> remove_error e fs' p = None" by auto
      from load_docx_saved(2)[OF sv[unfolded Inr] l this] ss show ?thesis by simp
    qed
  qed
qed

text \<open>With the example environment no file operation fails and the parser gives one document.\<close>

lemma example_load_docx:
  assumes env: "makedirs_error e = (\<lambda>fs p. None)" "open_error e = (\<lambda>fs p. None)"
      "write_error e = (\<lambda>fs p buf. None)" "remove_error e = (\<lambda>fs p. None)"
      "loader_load e = loader_load example_env"
  shows "fst (load_docx e example_upload s) =
           Inr ''System allows anonymous password reset via email link.''"
proof -
  have sv: "save_upload e example_upload s =
    (Inr (temp_path_of example_upload),
     s\<lparr>files := (files s)(temp_path_of example_upload \<mapsto> getbuffer example_upload)\<rparr>,
     [Log INFO (''Saving uploaded file to temporary path: '' @ temp_path_of example_upload)])"
    by (rule save_upload_saves) (simp_all add: env)
  have l: "loader_load e
      (files (s\<lparr>files := (files s)(temp_path_of example_upload \<mapsto> getbuffer example_upload)\<rparr>))
      (temp_path_of example_upload) =
    (Inr [\<lparr>page_content = ''System allows anonymous password reset via email link.''\<rparr>],
     (files s)(temp_path_of example_upload \<mapsto> getbuffer example_upload))"
    by (simp add: env example_env_def example_upload_def)
  from load_docx_saved(1)[OF sv l] show ?thesis by (simp add: env)
qed

text \<open>
  Claim C2 says that the temporary file is gone after every exit of \<open>load_docx\<close>. As
  stated it fails on two exits. When the disk is full, \<open>open\<close> creates the file and the
  write raises before the \<open>try\<close> statement is entered: \<open>load_docx\<close> raises and the file
  stays. When \<open>os.remove\<close> is refused in the \<open>finally\<close> block, \<open>load_docx\<close> raises and the
  file stays.
\<close>

theorem temp_file_left_behind:
  "fst (load_docx
          (example_env\<lparr>write_error := \<lambda>fs p buf. Some (''[Errno 28] No space left on device'', 0)\<rparr>)
          example_upload fresh_sys) = Inl (Exception ''[Errno 28] No space left on device'') \<and>
   ''temp/prd.docx'' \<in> dom (files (fst (snd (load_docx
          (example_env\<lparr>write_error := \<lambda>fs p buf. Some (''[Errno 28] No space left on device'', 0)\<rparr>)
          example_upload fresh_sys)))) \<and>
   fst (load_docx
          (example_env\<lparr>remove_error := \<lambda>fs p. Some ''[Errno 13] Permission denied''\<rparr>)
          example_upload fresh_sys) = Inl (Exception ''[Errno 13] Permission denied'') \<and>
   ''temp/prd.docx'' \<in> dom (files (fst (snd (load_docx
          (example_env\<lparr>remove_error := \<lambda>fs p. Some ''[Errno 13] Permission denied''\<rparr>)
          example_upload fresh_sys))))"
proof -
  let ?w = "example_env\<lparr>write_error := \<lambda>fs p buf. Some (''[Errno 28] No space left on device'', 0)\<rparr>"
  let ?r = "example_env\<lparr>remove_error := \<lambda>fs p. Some ''[Errno 13] Permission denied''\<rparr>"
  have p: "temp_path_of example_upload = ''temp/prd.docx''"
    by (simp add: temp_path_of_def os_path_join_def example_upload_def)
  have "save_upload ?w example_upload fresh_sys =
    (Inl (Exception ''[Errno 28] No space left on device''),
     fresh_sys\<lparr>files := (files fresh_sys)(temp_path_of example_upload \<mapsto>
        take 0 (getbuffer example_upload))\<rparr>,
     [Log INFO (''Saving uploaded file to temporary path: '' @ temp_path_of example_upload)])"
    by (rule save_upload_write_fails) (simp_all add: example_env_def)
  from load_docx_not_saved[OF this] p
  have w: "fst (load_docx ?w example_upload fresh_sys) =
      Inl (Exception ''[Errno 28] No space left on device'')"
    "''temp/prd.docx'' \<in> dom (files (fst (snd (load_docx ?w example_upload fresh_sys))))"
    by simp_all
  have sv: "save_upload ?r example_upload fresh_sys =
    (Inr (temp_path_of example_upload),
     fresh_sys\<lparr>files := (files fresh_sys)(temp_path_of example_upload \<mapsto> getbuffer example_upload)\<rparr>,
     [Log INFO (''Saving uploaded file to temporary path: '' @ temp_path_of example_upload)])"
    by (rule save_upload_saves) (simp_all add: example_env_def)
  have l: "loader_load ?r
      (files (fresh_sys\<lparr>files := (files fresh_sys)(temp_path_of example_upload \<mapsto>
         getbuffer example_upload)\<rparr>))
      (temp_path_of example_upload) =
    (Inr [\<lparr>page_content = ''System allows anonymous password reset via email link.''\<rparr>],
     (files fresh_sys)(temp_path_of example_upload \<mapsto> getbuffer example_upload))"
    by (simp add: example_env_def example_upload_def)
  have r: "fst (load_docx ?r example_upload fresh_sys) = Inl (Exception ''[Errno 13] Permission denied'')"
    "''temp/prd.docx'' \<in> dom (files (fst (snd (load_docx ?r example_upload fresh_sys))))"
    using load_docx_remove_fails[OF sv l, of "''[Errno 13] Permission denied''"] p by simp_all
  from w r show ?thesis by blast
qed

text \<open>
  Claim C2, amended. For every uploaded file that \<open>load_docx\<close> has saved to its temporary
  path, the file is there when the parser starts and is not there once \<open>load_docx\<close> has
  finished, whether it returns the content or raises (the parser raised, or returned no
  document), provided \<open>os.remove\<close> does not fail on what the parser left.
\<close>

theorem load_docx_removes_saved_file:
  assumes saved: "save_upload e uf s = (Inr p, s1, o1)"
    and removable: "remove_error e (snd (loader_load e (files s1) p)) p = None"
  shows "p \<in> dom (files s1) \<and>
         p \<notin> dom (files (fst (snd (load_docx e uf s)))) \<and>
         fst (load_docx e uf s) =
           (case fst (loader_load e (files s1) p) of
              Inl msg \<Rightarrow> Inl (Exception msg)
            | Inr [] \<Rightarrow> Inl (Exception ''list index out of range'')
            | Inr (d # ds) \<Rightarrow> Inr (page_content d))"
proof -
  obtain r fs' where l: "loader_load e (files s1) p = (r, fs')"
    by (cases "loader_load e (files s1) p")
  with removable have rem: "p \<in> dom fs' \<longrightarrow> remove_error e fs' p = None" by simp
  from save_upload_saved[OF saved] have "p \<in> dom (files s1)" by simp
  with load_docx_saved[OF saved l rem] l show ?thesis by simp
qed

text \<open>Both exits at concrete uploads: an empty upload that the parser rejects, and a good one.\<close>

theorem load_docx_removes_saved_file_witness:
  "fst (load_docx example_env empty_upload fresh_sys) = Inl (Exception ''File is not a zip file'') \<and>
   ''temp/prd.docx'' \<notin> dom (files (fst (snd (load_docx example_env empty_upload fresh_sys)))) \<and>
   fst (load_docx example_env example_upload fresh_sys) =
     Inr ''System allows anonymous password reset via email link.'' \<and>
   ''temp/prd.docx'' \<notin> dom (files (fst (snd (load_docx example_env example_upload fresh_sys))))"
proof -
  have p: "temp_path_of empty_upload = ''temp/prd.docx''" "temp_path_of example_upload = ''temp/prd.docx''"
    by (simp_all add: temp_path_of_def os_path_join_def empty_upload_def example_upload_def)
  have sv: "save_upload example_env uf fresh_sys =
    (Inr (temp_path_of uf), fresh_sys\<lparr>files := (files fresh_sys)(temp_path_of uf \<mapsto> getbuffer uf)\<rparr>,
     [Log INFO (''Saving uploaded file to temporary path: '' @ temp_path_of uf)])" for uf
    by (rule save_upload_saves) (simp_all add: example_env_def)
  have rm: "remove_error example_env fs q = None" for fs q
    by (simp add: example_env_def)
  have a: "fst (loader_load example_env
      (files (fresh_sys\<lparr>files := (files fresh_sys)(temp_path_of empty_upload \<mapsto>
         getbuffer empty_upload)\<rparr>)) (temp_path_of empty_upload)) = Inl ''File is not a zip file''"
    by (simp add: example_env_def empty_upload_def)
  have b: "fst (loader_load example_env
      (files (fresh_sys\<lparr>files := (files fresh_sys)(temp_path_of example_upload \<mapsto>
         getbuffer example_upload)\<rparr>)) (temp_path_of example_upload)) =
      Inr [\<lparr>page_content = ''System allows anonymous password reset via email link.''\<rparr>]"
    by (simp add: example_env_def example_upload_def)
  from load_docx_removes_saved_file[OF sv[of empty_upload] rm] a p
  have 1: "fst (load_docx example_env empty_upload fresh_sys) = Inl (Exception ''File is not a zip file'') \<and>
   ''temp/prd.docx'' \<notin> dom (files (fst (snd (load_docx example_env empty_upload fresh_sys))))"
    by simp
  from load_docx_removes_saved_file[OF sv[of example_upload] rm] b p
  have 2: "fst (load_docx example_env example_upload fresh_sys) =
     Inr ''System allows anonymous password reset via email link.'' \<and>
   ''temp/prd.docx'' \<notin> dom (files (fst (snd (load_docx example_env example_upload fresh_sys))))"
    by simp
  from 1 2 show ?thesis by blast
qed

subsection \<open>The temporary path\<close>





subsection \<open>generate_report_narrative\<close>




section \<open>Properties of the UI\<close>

subsection \<open>The liveness check\<close>

text \<open>
  Claim C9. For every request whose query parameters contain the key \<open>healthz\<close>, \<open>main\<close>
  writes the fixed body \<open>OK\<close> and returns at once: apart from the first log line nothing
  else happens, so no page is rendered, no document is processed, no chain is invoked,
  and the files and the session state stay as they were.
\<close>

theorem main_healthz:
  "''healthz'' \<in> set (map fst (query_params rq)) \<Longrightarrow>
   main e rq s = (Inr (), s, [Log INFO ''Application starting...'', St_write ''OK''])"
  by (simp add: main_def prog_defs)

text \<open>The liveness request on a session that is in the middle of an assessment click.\<close>

theorem main_healthz_witness:
  "main example_env
     \<lparr>query_params = [(''healthz'', ''1'')], uploaded = Some example_upload,
      clicked = Some Perform_Security_Assessment\<rparr> analysed_sys =
   (Inr (), analysed_sys, [Log INFO ''Application starting...'', St_write ''OK''])"
  by (rule main_healthz) simp

subsection \<open>The home page\<close>

text \<open>What the assessment does to the session state, by the outcome of the extraction.\<close>

lemma perform_assessment_analysed:
  assumes load: "load_docx e uf s = (Inr content, s1, o1)" and ne: "content \<noteq> []"
    and an: "\<forall>s. analyze_risk e content s = (Inr risks, s, o2)"
  shows "\<exists>s' evs. perform_assessment e uf s = (Inr (), s', evs) \<and>
           session_state s' ''risk_data'' = Some risks \<and>
           session_state s' ''full_report_md'' = None \<and>
           session_state s' ''original_text'' = Some (JStr content) \<and>
           session_state s' ''page'' = session_state s1 ''page''"
  using load ne an
  by (cases "''full_report_md'' \<in> dom (session_state s1)")
     (auto simp add: perform_assessment_def prog_defs session_defs)

lemma perform_assessment_no_content:
  assumes load: "load_docx e uf s = (Inr [], s1, o1)"
  shows "\<exists>evs. perform_assessment e uf s =
           (Inr (), s1\<lparr>session_state := (session_state s1)(''original_text'' \<mapsto> JStr [])\<rparr>, evs) \<and>
           St_error ''Could not extract text from the document.'' \<in> set evs"
  using load
  by (simp add: perform_assessment_def prog_defs session_defs)

lemma perform_assessment_extraction_failed:
  assumes load: "load_docx e uf s = (Inl (Exception msg), s1, o1)"
  shows "\<exists>evs. perform_assessment e uf s = (Inr (), s1, evs) \<and>
           St_error (''An error occurred: '' @ msg) \<in> set evs"
  using load
  by (simp add: perform_assessment_def prog_defs session_defs)

lemma display_results_ex:
  "\<exists>r s' evs. display_results e rq s = (r, s', evs) \<and>
     (s' = s \<or>
      clicked rq = Some Generate_Full_Report \<and>
      s' = s\<lparr>session_state := (session_state s)(''page'' \<mapsto> JStr ''report'')\<rparr>)"
proof (cases "session_state s ''risk_data''")
  case None
  then show ?thesis by (simp add: display_results_def prog_defs session_defs)
next
  case (Some rd)
  obtain r where r: "pd_DataFrame e rd s = (r, s, [])" using pd_DataFrame_ex by blast
  show ?thesis
  proof (cases "truthy rd")
    case False
    with Some show ?thesis by (simp add: display_results_def prog_defs session_defs)
  next
    case True
    show ?thesis
    proof (cases r)
      case (Inl ex)
      with Some True r show ?thesis
        by (simp add: display_results_def prog_defs session_defs)
    next
      case (Inr df)
      with Some True r show ?thesis
        by (cases "to_csv e df")
           (simp_all add: display_results_def prog_defs session_defs st_button_def)
    qed
  qed
qed

lemma render_home_page_assessed:
  assumes click: "clicked rq = Some Perform_Security_Assessment"
    and up: "uploaded rq = Some uf"
    and load: "load_docx e uf s = (Inr content, s1, o1)" and ne: "content \<noteq> []"
    and an: "\<forall>s. analyze_risk e content s = (Inr risks, s, o2)"
  shows "session_state (fst (snd (render_home_page e rq s))) ''risk_data'' = Some risks \<and>
         session_state (fst (snd (render_home_page e rq s))) ''full_report_md'' = None \<and>
         session_state (fst (snd (render_home_page e rq s))) ''original_text'' = Some (JStr content)"
proof -
  obtain s2 evs where p: "perform_assessment e uf s = (Inr (), s2, evs)"
      "session_state s2 ''risk_data'' = Some risks"
      "session_state s2 ''full_report_md'' = None"
      "session_state s2 ''original_text'' = Some (JStr content)"
    using perform_assessment_analysed[OF load ne an] by blast
  obtain r s3 o3 where d: "display_results e rq s2 = (r, s3, o3)" "s3 = s2"
    using display_results_ex[of e rq s2] click by auto
  from click up p d show ?thesis
    by (cases r)
       (simp_all add: render_home_page_def st_button_def st_file_uploader_def prog_defs)
qed

text \<open>
  Claim C6. When the assessment button is clicked on the home page with an uploaded
  file and the document is analysed (\<open>load_docx\<close> returns a text that is not empty), then
  after \<open>render_home_page\<close> the session holds the result of \<open>analyze_risk\<close> on that text
  as \<open>risk_data\<close>, the text as \<open>original_text\<close>, and no \<open>full_report_md\<close>: a report memoized
  before is gone. This holds whatever the page does afterwards, also when showing the
  results raises.
\<close>

theorem assessment_overwrites_risk_data:
  assumes "clicked rq = Some Perform_Security_Assessment"
    and "uploaded rq = Some uf"
    and "load_docx e uf s = (Inr content, s1, o1)"
    and "content \<noteq> []"
  shows "\<exists>risks o2.
           analyze_risk e content s1 = (Inr risks, s1, o2) \<and>
           session_state (fst (snd (render_home_page e rq s))) ''risk_data'' = Some risks \<and>
           session_state (fst (snd (render_home_page e rq s))) ''full_report_md'' = None \<and>
           session_state (fst (snd (render_home_page e rq s))) ''original_text'' =
             Some (JStr content)"
proof -
  obtain risks o2 where an: "\<forall>s. analyze_risk e content s = (Inr risks, s, o2)"
    using analyze_risk_returns by blast
  from render_home_page_assessed[OF assms an] an show ?thesis by blast
qed

text \<open>
  A new document is assessed in a session that holds an earlier analysis and its report:
  the risk data is replaced and the report is dropped.
\<close>

theorem assessment_overwrites_risk_data_witness:
  "session_state reported_sys ''risk_data'' = Some (JArr [reordered_record]) \<and>
   session_state reported_sys ''full_report_md'' = Some (JStr ''An earlier report.'') \<and>
   session_state (fst (snd (render_home_page example_env assess_request reported_sys)))
     ''risk_data'' = Some (JArr [example_record]) \<and>
   session_state (fst (snd (render_home_page example_env assess_request reported_sys)))
     ''full_report_md'' = None"
proof -
  let ?c = "''System allows anonymous password reset via email link.''"
  have "fst (load_docx example_env example_upload reported_sys) = Inr ?c"
    by (rule example_load_docx) (simp_all add: example_env_def)
  then obtain s1 o1 where l: "load_docx example_env example_upload reported_sys = (Inr ?c, s1, o1)"
    by (cases "load_docx example_env example_upload reported_sys") auto
  have k: "getenv example_env ''GOOGLE_API_KEY'' = Some ''secret''"
    by (simp add: example_env_def)
  have a: "analyze_risk example_env ?c s1 =
      (Inr (JArr [example_record]), s1,
       [Log INFO ''Starting risk assessment analysis...'',
        Chain_invoke Risk_chain
          \<lparr>model = getenv_default example_env ''MODELAI'' ''gemini-flash-latest'',
           temperature_tenths = 3, google_api_key = Some ''secret''\<rparr>,
        Log INFO ''Risk assessment analysis completed successfully.''])"
    by (rule analyze_risk_chain_ok[OF k]) (simp_all add: example_env_def)
  have c: "clicked assess_request = Some Perform_Security_Assessment"
    "uploaded assess_request = Some example_upload"
    by (simp_all add: assess_request_def)
  have n: "?c \<noteq> []" by simp
  from assessment_overwrites_risk_data[OF c l n] a
  have "session_state (fst (snd (render_home_page example_env assess_request reported_sys)))
     ''risk_data'' = Some (JArr [example_record]) \<and>
   session_state (fst (snd (render_home_page example_env assess_request reported_sys)))
     ''full_report_md'' = None"
    by auto
  then show ?thesis by (simp add: reported_sys_def)
qed

subsection \<open>No validation of the analysis result\<close>

text \<open>
  Claim C10. Whenever the risk chain is invoked (the API key is there) and its answer
  parses, to any JSON value \<open>v\<close> at all, \<open>analyze_risk\<close> returns \<open>v\<close> itself: nothing checks
  that it is a list, that the records have their fields, or what the threat type is.
  The home page then stores that value as \<open>risk_data\<close>.
\<close>

theorem analyze_risk_returns_parsed_value:
  assumes "getenv e ''GOOGLE_API_KEY'' = Some k" and "k \<noteq> []"
    and "risk_chain e \<lparr>model = getenv_default e ''MODELAI'' ''gemini-flash-latest'',
            temperature_tenths = 3, google_api_key = Some k\<rparr> t = Inr v"
  shows "fst (analyze_risk e t s) = Inr v \<and>
         (\<forall>rq uf s0 s1 o1.
            clicked rq = Some Perform_Security_Assessment \<and> uploaded rq = Some uf \<and>
            load_docx e uf s0 = (Inr t, s1, o1) \<and> t \<noteq> [] \<longrightarrow>
            session_state (fst (snd (render_home_page e rq s0))) ''risk_data'' = Some v)"
proof -
  note ok = analyze_risk_chain_ok[OF assms]
  have 1: "fst (analyze_risk e t s) = Inr v" by (simp add: ok)
  have 2: "session_state (fst (snd (render_home_page e rq s0))) ''risk_data'' = Some v"
    if "clicked rq = Some Perform_Security_Assessment" "uploaded rq = Some uf"
      "load_docx e uf s0 = (Inr t, s1, o1)" "t \<noteq> []" for rq uf s0 s1 o1
    using render_home_page_assessed[OF that, of v] ok by blast
  from 1 2 show ?thesis by blast
qed

text \<open>The chain answers with a JSON string, not a list of records: it is returned and stored.\<close>

theorem analyze_risk_returns_parsed_value_witness:
  "fst (analyze_risk (example_env\<lparr>risk_chain := \<lambda>l t. Inr (JStr ''No risks.'')\<rparr>)
          ''System allows anonymous password reset via email link.'' fresh_sys)
     = Inr (JStr ''No risks.'') \<and>
   session_state
     (fst (snd (render_home_page (example_env\<lparr>risk_chain := \<lambda>l t. Inr (JStr ''No risks.'')\<rparr>)
                  assess_request fresh_sys)))
     ''risk_data'' = Some (JStr ''No risks.'')"
proof -
  let ?e = "example_env\<lparr>risk_chain := \<lambda>l t. Inr (JStr ''No risks.'')\<rparr>"
  let ?c = "''System allows anonymous password reset via email link.''"
  have k: "getenv ?e ''GOOGLE_API_KEY'' = Some ''secret''" "''secret'' \<noteq> []"
    by (simp_all add: example_env_def)
  have r: "risk_chain ?e \<lparr>model = getenv_default ?e ''MODELAI'' ''gemini-flash-latest'',
            temperature_tenths = 3, google_api_key = Some ''secret''\<rparr> ?c = Inr (JStr ''No risks.'')"
    by simp
  have "fst (load_docx ?e example_upload fresh_sys) = Inr ?c"
    by (rule example_load_docx) (simp_all add: example_env_def)
  then obtain s1 o1 where l: "load_docx ?e example_upload fresh_sys = (Inr ?c, s1, o1)"
    by (cases "load_docx ?e example_upload fresh_sys") auto
  have c: "clicked assess_request = Some Perform_Security_Assessment \<and>
           uploaded assess_request = Some example_upload \<and>
           load_docx ?e example_upload fresh_sys = (Inr ?c, s1, o1) \<and> ?c \<noteq> []"
    using l by (simp add: assess_request_def)
  note t = analyze_risk_returns_parsed_value[OF k r, of fresh_sys]
  from t have 1: "fst (analyze_risk ?e ?c fresh_sys) = Inr (JStr ''No risks.'')" by blast
  from t c have 2: "session_state (fst (snd (render_home_page ?e assess_request fresh_sys)))
     ''risk_data'' = Some (JStr ''No risks.'')" by blast
  from 1 2 show ?thesis by blast
qed

subsection \<open>The report page\<close>

lemma display_report_shows:
  assumes "session_state s ''full_report_md'' = Some md"
  shows "\<exists>r evs. display_report e s =
           (r, s, St_markdown md # St_download_button Download_Report_Markdown (Text md) # evs)"
proof (cases "markdown_markdown e md")
  case (Inl msg)
  with assms show ?thesis
    by (simp add: display_report_def prog_defs session_get_def)
next
  case (Inr html)
  obtain r evs where c: "convert_to_pdf e (html_with_style html) s = (r, s, evs)"
    using convert_to_pdf_ex by blast
  show ?thesis
  proof (cases r)
    case (Inl ex)
    with assms Inr c show ?thesis
      by (simp add: display_report_def prog_defs session_get_def)
  next
    case pdf: (Inr pdf_bytes)
    with assms Inr c show ?thesis
      by (cases pdf_bytes) (simp_all add: display_report_def prog_defs session_get_def)
  qed
qed

text \<open>The report page when the data is there and the report is not: it is generated, then shown.\<close>

lemma render_report_generates:
  assumes "has_risk_data_and_text s = (Inr True, s, [])"
    and "report_not_generated s = (Inr True, s, [])"
    and "generate_full_report e s = (rg, s2, o2)"
    and "display_report e s2 = (r3, s2, o3)"
  shows "render_report_page e rq s =
           (case rg of
              Inl ex \<Rightarrow> (Inl ex, s2, St_button Back_to_Assessment # o2)
            | Inr u \<Rightarrow> (r3, s2, St_button Back_to_Assessment # o2 @ o3))"
  using assms by (cases rg) (simp_all add: render_report_page_def st_button_def prog_defs)

text \<open>The report page when the data and the report are there: the report is shown.\<close>

lemma render_report_reuses:
  assumes "has_risk_data_and_text s = (Inr True, s, [])"
    and "report_not_generated s = (Inr False, s, [])"
    and "display_report e s = (r3, s, o3)"
  shows "render_report_page e rq s = (r3, s, St_button Back_to_Assessment # o3)"
  using assms by (simp add: render_report_page_def st_button_def prog_defs)

lemma render_report_counts:
  assumes run: "render_report_page e rq s = (r1, s1, o1)"
  shows "length (filter is_narrative_entry o1) \<le> 1 \<and>
         length (filter is_narrative_request o1) \<le> 1 \<and>
         (r1 = Inr () \<and> fst (has_risk_data_and_text s) = Inr True \<longrightarrow>
            (\<exists>md. session_state s1 ''full_report_md'' = Some md \<and> md \<noteq> JNull))"
proof -
  obtain ok where ok: "has_risk_data_and_text s = (ok, s, [])"
    using has_risk_data_and_text_ex by blast
  show ?thesis
  proof (cases ok)
    case (Inl ex)
    with ok render_report_raises[of s ex s "[]" e rq] run show ?thesis by auto
  next
    case (Inr b)
    show ?thesis
    proof (cases b)
      case False
      with Inr ok render_report_no_data[of s s "[]" e rq] run show ?thesis by auto
    next
      case True
      with Inr ok have d: "has_risk_data_and_text s = (Inr True, s, [])" by simp
      show ?thesis
      proof (cases "session_state s ''full_report_md'' = None \<or>
                    session_state s ''full_report_md'' = Some JNull")
        case False
        then obtain v where v: "session_state s ''full_report_md'' = Some v" "v \<noteq> JNull" by auto
        from render_report_memoized[OF v, of e rq] run
        have "s1 = s" "\<not> list_ex is_narrative_entry o1" "\<not> list_ex is_narrative_request o1"
          by auto
        with v show ?thesis by (auto simp add: list_ex_iff filter_empty_conv[THEN iffD2])
      next
        case missing: True
        then have m: "report_not_generated s = (Inr True, s, [])"
          by (simp add: report_not_generated_ex)
        obtain rg s2 o2 where g: "generate_full_report e s = (rg, s2, o2)"
          "length (filter is_narrative_entry o2) \<le> 1" "length (filter is_narrative_request o2) \<le> 1"
          "case rg of Inl ex \<Rightarrow> s2 = s
           | Inr u \<Rightarrow> \<exists>md. s2 = s\<lparr>session_state := (session_state s)(''full_report_md'' \<mapsto> JStr md)\<rparr>"
          using generate_full_report_ex[of e s] by blast
        obtain r3 o3 where dr: "display_report e s2 = (r3, s2, o3)"
          "\<not> list_ex is_narrative_entry o3" "\<not> list_ex is_narrative_request o3"
          using display_report_ex by blast
        have o3: "filter is_narrative_entry o3 = []" "filter is_narrative_request o3 = []"
          using dr(2,3) by (auto simp add: list_ex_iff filter_empty_conv)
        note rr = render_report_generates[OF d m g(1) dr(1), of rq]
        show ?thesis
        proof (cases rg)
          case (Inl ex)
          with rr run g(2,3) show ?thesis by auto
        next
          case (Inr u)
          with rr run g(2,3,4) o3 show ?thesis by auto
        qed
      qed
    qed
  qed
qed

lemma render_report_stored:
  assumes v: "session_state s ''full_report_md'' = Some md" "md \<noteq> JNull"
    and run: "render_report_page e rq s = (r, s', evs)"
  shows "s' = s \<and> \<not> list_ex is_narrative_entry evs \<and> \<not> list_ex is_narrative_request evs \<and>
         (fst (has_risk_data_and_text s) = Inr True \<longrightarrow> St_markdown md \<in> set evs)"
proof -
  from render_report_memoized[OF v, of e rq] run
  have a: "s' = s" "\<not> list_ex is_narrative_entry evs" "\<not> list_ex is_narrative_request evs"
    by auto
  have "St_markdown md \<in> set evs" if "fst (has_risk_data_and_text s) = Inr True"
  proof -
    from that has_risk_data_and_text_ex[of s]
    have d: "has_risk_data_and_text s = (Inr True, s, [])" by auto
    have m: "report_not_generated s = (Inr False, s, [])"
      using v by (simp add: report_not_generated_ex)
    obtain r3 o3 where "display_report e s =
        (r3, s, St_markdown md # St_download_button Download_Report_Markdown (Text md) # o3)"
      using display_report_shows[OF v(1)] by blast
    from render_report_reuses[OF d m this, of rq] run show ?thesis by auto
  qed
  with a show ?thesis by blast
qed

lemma render_report_no_data_again:
  assumes "render_report_page e rq s = (Inr (), s1, o1)"
    and "fst (has_risk_data_and_text s) \<noteq> Inr True"
  shows "render_report_page e' rq' s1 =
           (Inr (), s1, [St_button Back_to_Assessment,
              St_error ''No data available. Please perform an assessment first.''])"
proof -
  obtain ok where ok: "has_risk_data_and_text s = (ok, s, [])"
    using has_risk_data_and_text_ex by blast
  show ?thesis
  proof (cases ok)
    case (Inl ex)
    with ok render_report_raises[of s ex s "[]" e rq] assms show ?thesis by simp
  next
    case (Inr b)
    with ok assms(2) have nd: "has_risk_data_and_text s = (Inr False, s, [])" by (cases b) simp_all
    from render_report_no_data[OF nd, of e rq] assms(1) have "s1 = s" by simp
    with render_report_no_data[OF nd, of e' rq'] show ?thesis by simp
  qed
qed

text \<open>The parts of the report page in the example environment.\<close>

lemma example_narrative:
  "generate_report_narrative example_env t r s =
     (Inr ''# Security Assessment Report'', s,
      [Log INFO ''Generating report narrative...'',
       Chain_invoke Narrative_chain
         \<lparr>model = ''gemini-flash-latest'', temperature_tenths = 5,
          google_api_key = Some ''secret''\<rparr>])"
proof -
  have k: "getenv example_env ''GOOGLE_API_KEY'' = Some ''secret''"
    "getenv_default example_env ''MODELAI'' ''gemini-flash-latest'' = ''gemini-flash-latest''"
    by (simp_all add: example_env_def getenv_default_def)
  have b: "narrative_chain example_env l t r =
            Inr ''```markdown\<newline># Security Assessment Report\<newline>```''" for l
    by (simp add: example_env_def)
  have c: "py_strip ''\<newline># Security Assessment Report\<newline>'' = ''# Security Assessment Report''"
    by (simp add: py_strip_def py_isspace_def)
  show ?thesis
    by (simp add: generate_report_narrative_def invoke_narrative_chain_def bind_def logger_def
        emit_def try_except_def of_outcome_def return_def Let_def k b c client_with_key)
qed

lemma example_assemble:
  assumes "list_all is_dict recs"
  shows "assemble_report example_env n (JArr recs) s =
     (Inr (n @ ''\<newline>\<newline>## Risk Assessment\<newline>\<newline>'' @ pipe_row (frame_columns recs)), s, [])"
proof -
  have "tabulate_pipe example_env cols cells = Inr (pipe_row cols)" for cols cells
    by (simp add: example_env_def)
  with assms show ?thesis
    by (simp add: assemble_report_def pd_DataFrame_def to_markdown_def frame_of_records_def
        bind_def return_def of_outcome_def Let_def)
qed

lemma example_display:
  assumes "session_state s ''full_report_md'' = Some md"
  shows "display_report example_env s =
     (Inr (), s,
      [St_markdown md, St_download_button Download_Report_Markdown (Text md),
       St_download_button Download_Report_PDF (Binary [0x25, 0x50, 0x44, 0x46])])"
proof -
  have m: "markdown_markdown example_env md = Inr ''<h1>Security Assessment Report</h1>''"
    by (simp add: example_env_def)
  have p: "pisa_CreatePDF example_env h = Inr (0, [0x25, 0x50, 0x44, 0x46])" for h
    by (simp add: example_env_def)
  have c: "convert_to_pdf example_env h s = (Inr (Some [0x25, 0x50, 0x44, 0x46]), s, [])" for h
    by (simp add: convert_to_pdf_def prog_defs p)
  from assms show ?thesis
    by (simp add: display_report_def bind_def emit_def of_outcome_def return_def
        session_get_def m c)
qed

lemma example_columns:
  "frame_columns [example_record] = risk_record_fields"
  "pipe_row risk_record_fields =
     ''| Feature Name | Threat Type | Description | Risk | Recommendation | Risk Level |''"
  "list_all is_dict [example_record]"
  by (simp_all add: frame_columns_def example_record_def risk_record_fields_def)

subsection \<open>Memoization of the report\<close>

text \<open>
  Claim C3. The report page is rendered, and then rendered again with no analysis in
  between, with any request and any behaviour of the collaborators.

  The first rendering enters \<open>generate_report_narrative\<close> at most once and sends at most
  one request to the narrative chain; when it returns normally on a session with risk
  data and text, the session holds the report as \<open>full_report_md\<close>.

  When the session holds a report after the first rendering, the second rendering does
  not enter \<open>generate_report_narrative\<close> and sends no request to the narrative chain; it
  leaves the session, and so the memoized report, as it is, and it is the memoized report
  that it shows. The second rendering does not enter the generator either when the first
  one returned normally without a report (there was no data).

  A first rendering that raised before the report was stored, because building the
  client or the table raised, has memoized nothing: this is the one case in which the
  next rendering generates again.
\<close>

theorem report_memoized_once:
  assumes first: "render_report_page e rq s = (r1, s1, o1)"
    and again: "render_report_page e' rq' s1 = (r2, s2, o2)"
  shows "length (filter is_narrative_entry o1) \<le> 1 \<and>
         length (filter is_narrative_request o1) \<le> 1 \<and>
         (r1 = Inr () \<and> fst (has_risk_data_and_text s) = Inr True \<longrightarrow>
            (\<exists>md. session_state s1 ''full_report_md'' = Some md \<and> md \<noteq> JNull)) \<and>
         (\<forall>md. session_state s1 ''full_report_md'' = Some md \<and> md \<noteq> JNull \<longrightarrow>
            s2 = s1 \<and> \<not> list_ex is_narrative_entry o2 \<and> \<not> list_ex is_narrative_request o2 \<and>
            (fst (has_risk_data_and_text s1) = Inr True \<longrightarrow> St_markdown md \<in> set o2)) \<and>
         (r1 = Inr () \<longrightarrow>
            s2 = s1 \<and> \<not> list_ex is_narrative_entry o2 \<and> \<not> list_ex is_narrative_request o2)"
proof -
  note c = render_report_counts[OF first]
  have m: "s2 = s1 \<and> \<not> list_ex is_narrative_entry o2 \<and> \<not> list_ex is_narrative_request o2 \<and>
            (fst (has_risk_data_and_text s1) = Inr True \<longrightarrow> St_markdown md \<in> set o2)"
    if "session_state s1 ''full_report_md'' = Some md" "md \<noteq> JNull" for md
    using render_report_stored[OF that again] .
  have n: "s2 = s1 \<and> \<not> list_ex is_narrative_entry o2 \<and> \<not> list_ex is_narrative_request o2"
    if r1: "r1 = Inr ()"
  proof (cases "fst (has_risk_data_and_text s) = Inr True")
    case True
    with c r1 obtain md where "session_state s1 ''full_report_md'' = Some md" "md \<noteq> JNull"
      by blast
    from m[OF this] show ?thesis by blast
  next
    case False
    from render_report_no_data_again[OF first[unfolded r1] False, of e' rq'] again
    show ?thesis by simp
  qed
  from c m n show ?thesis by blast
qed

text \<open>
  The report page is rendered on a session with an analysis and no report, then again
  after a click while the LLM is down: the first run asks the narrative chain once, the
  second not at all, and the second shows the report of the first.
\<close>

theorem report_memoized_once_witness:
  "(\<exists>s1 o1 r2 o2.
      render_report_page example_env no_request analysed_sys = (Inr (), s1, o1) \<and>
      length (filter is_narrative_request o1) = 1 \<and>
      session_state s1 ''full_report_md'' =
        Some (JStr (''# Security Assessment Report'' @
                    ''\<newline>\<newline>## Risk Assessment\<newline>\<newline>'' @
                    ''| Feature Name | Threat Type | Description | Risk | Recommendation | Risk Level |'')) \<and>
      render_report_page (example_env\<lparr>narrative_chain := \<lambda>l t r. Inl ''503 unavailable''\<rparr>)
        back_request s1 = (r2, s1, o2) \<and>
      \<not> list_ex is_narrative_entry o2 \<and> \<not> list_ex is_narrative_request o2 \<and>
      St_markdown (JStr (''# Security Assessment Report'' @
                    ''\<newline>\<newline>## Risk Assessment\<newline>\<newline>'' @
                    ''| Feature Name | Threat Type | Description | Risk | Recommendation | Risk Level |''))
        \<in> set o2)"
proof -
  let ?e' = "example_env\<lparr>narrative_chain := \<lambda>l t r. Inl ''503 unavailable''\<rparr>"
  let ?md = "JStr (''# Security Assessment Report'' @
                    ''\<newline>\<newline>## Risk Assessment\<newline>\<newline>'' @
                    ''| Feature Name | Threat Type | Description | Risk | Recommendation | Risk Level |'')"
  let ?s1 = "analysed_sys\<lparr>session_state := (session_state analysed_sys)(''full_report_md'' \<mapsto> ?md)\<rparr>"
  let ?o2 = "[St_spinner ''Generating narrative report...'',
       Log INFO ''Generating report narrative...'',
       Chain_invoke Narrative_chain
         \<lparr>model = ''gemini-flash-latest'', temperature_tenths = 5,
          google_api_key = Some ''secret''\<rparr>]"
  let ?o3 = "[St_markdown ?md, St_download_button Download_Report_Markdown (Text ?md),
       St_download_button Download_Report_PDF (Binary [0x25, 0x50, 0x44, 0x46])]"
  have h: "has_risk_data_and_text s = (Inr True, s, [])"
    if "session_state s ''risk_data'' = Some (JArr [example_record])"
      "session_state s ''original_text'' =
         Some (JStr ''System allows anonymous password reset via email link.'')" for s
    using that by (simp add: has_risk_data_and_text_def prog_defs session_defs)
  have h0: "has_risk_data_and_text analysed_sys = (Inr True, analysed_sys, [])"
    by (rule h) (simp_all add: analysed_sys_def)
  have h1: "has_risk_data_and_text ?s1 = (Inr True, ?s1, [])"
    by (rule h) (simp_all add: analysed_sys_def)
  have m: "report_not_generated analysed_sys = (Inr True, analysed_sys, [])"
    by (simp add: report_not_generated_ex analysed_sys_def)
  have a: "assemble_report example_env ''# Security Assessment Report'' (JArr [example_record]) s =
     (Inr (''# Security Assessment Report'' @
                    ''\<newline>\<newline>## Risk Assessment\<newline>\<newline>'' @
                    ''| Feature Name | Threat Type | Description | Risk | Recommendation | Risk Level |''),
      s, [])" for s
    using example_assemble[OF example_columns(3), of "''# Security Assessment Report''" s]
    by (simp add: example_columns)
  have g: "generate_full_report example_env analysed_sys = (Inr (), ?s1, ?o2)"
    by (simp add: generate_full_report_def bind_def emit_def session_defs example_narrative a
        analysed_sys_def)
  have d: "display_report example_env ?s1 = (Inr (), ?s1, ?o3)"
    by (rule example_display) simp
  from render_report_generates[OF h0 m g d, of no_request]
  have first: "render_report_page example_env no_request analysed_sys =
      (Inr (), ?s1, St_button Back_to_Assessment # ?o2 @ ?o3)"
    by simp
  obtain r2 s2 o2 where again: "render_report_page ?e' back_request ?s1 = (r2, s2, o2)"
    by (cases "render_report_page ?e' back_request ?s1")
  have memo: "session_state ?s1 ''full_report_md'' = Some ?md \<and> ?md \<noteq> JNull" by simp
  from report_memoized_once[OF first again] memo h1
  have "s2 = ?s1 \<and> \<not> list_ex is_narrative_entry o2 \<and> \<not> list_ex is_narrative_request o2 \<and>
        St_markdown ?md \<in> set o2"
    by (metis fst_conv)
  with again first memo show ?thesis
    by (intro exI[of _ ?s1] exI[of _ "St_button Back_to_Assessment # ?o2 @ ?o3"]
        exI[of _ r2] exI[of _ o2]) simp
qed

subsection \<open>Routing and the back button\<close>











subsection \<open>The report page without risk data\<close>




subsection \<open>Report assembly\<close>











end
